theory Spec2Isabelle
  imports Complex_Main
begin

section \<open>Failures of the Python code\<close>

text \<open>
  Every way a call of \<^verbatim>\<open>neural_style/utils.py\<close> can stop instead of returning:
  Python's own exceptions (the modulo by zero in \<^verbatim>\<open>StyleLoader.get\<close>, the tuple
  unpacking of \<^verbatim>\<open>preprocess_batch\<close>, an index outside a list) and the run-time errors of the tensor library
  (sizes that do not fit, a singular matrix handed to \<^verbatim>\<open>inverse\<close>, a decomposition
  that fails, operands on two devices, an image file that cannot be read, a tensor sent to
  an accelerator that is not there). \<open>InvalidReference\<close> is
  the model's own: a tensor object whose storage is not in the store, which Python
  cannot construct.
\<close>

datatype error =
    ZeroDivisionError
  | ValueError
  | IndexError
  | SizeMismatch
  | SingularMatrix
  | SvdFailure
  | DeviceMismatch
  | LoadError
  | CudaUnavailable
  | InvalidReference

section \<open>Batches: tensors seen through their two leading dimensions\<close>

text \<open>
  \<^verbatim>\<open>preprocess_batch\<close> only moves whole slices along dimensions 0 and 1 of its
  argument, so a tensor of shape \<open>(d0, d1, ...)\<close> is a \<open>d0\<close>-by-\<open>d1\<close> table of slices
  of type \<open>'a\<close> (for a 4-dimensional image batch a slice is one \<open>H\<close>-by-\<open>W\<close> plane). The
  two sizes are kept beside the table, as the library keeps a tensor's shape, so that a
  tensor with an empty dimension still knows its other one.
\<close>

record 'a batch =
  dim0 :: nat
  dim1 :: nat
  elems :: "'a list list"

definition wf_batch :: "'a batch \<Rightarrow> bool" where
  "wf_batch t \<longleftrightarrow> length (elems t) = dim0 t \<and> list_all (\<lambda>r. length r = dim1 t) (elems t)"

text \<open>\<^verbatim>\<open>batch.transpose(0, 1)\<close>.\<close>

definition transpose01 :: "'a batch \<Rightarrow> 'a batch" where
  "transpose01 t =
     \<lparr>dim0 = dim1 t, dim1 = dim0 t,
      elems = map (\<lambda>j. map (\<lambda>r. r ! j) (elems t)) [0..<dim1 t]\<rparr>"

text \<open>
  \<^verbatim>\<open>torch.chunk(t, n)\<close> along dimension 0, as the library of the code's time computes
  it: \<^verbatim>\<open>split_size = (size + n - 1) // n\<close>, then \<^verbatim>\<open>split(t, split_size)\<close>, which makes
  \<^verbatim>\<open>(size + split_size - 1) // split_size\<close> pieces by \<^verbatim>\<open>narrow\<close> and divides by
  \<^verbatim>\<open>split_size\<close> on the way (an empty dimension 0 stops there).
\<close>

definition chunk :: "'a batch \<Rightarrow> nat \<Rightarrow> error + 'a batch list" where
  "chunk t n =
     (let split_size = (dim0 t + n - 1) div n in
      if split_size = 0 then Inl ZeroDivisionError
      else
        let num_splits = (dim0 t + split_size - 1) div split_size in
        Inr (map (\<lambda>k. let part = take split_size (drop (k * split_size) (elems t))
                       in \<lparr>dim0 = length part, dim1 = dim1 t, elems = part\<rparr>)
                 [0..<num_splits]))"

text \<open>\<^verbatim>\<open>torch.cat(ts)\<close> along dimension 0: the other sizes must agree.\<close>

definition cat :: "'a batch list \<Rightarrow> error + 'a batch" where
  "cat ts =
     (case ts of
        [] \<Rightarrow> Inl ValueError
      | t # rest \<Rightarrow>
          if list_all (\<lambda>u. dim1 u = dim1 t) rest
          then Inr \<lparr>dim0 = sum_list (map dim0 ts), dim1 = dim1 t, elems = concat (map elems ts)\<rparr>
          else Inl SizeMismatch)"

text \<open>
  \<^verbatim>\<open>preprocess_batch\<close>: transpose, cut dimension 0 in three, put the three pieces back
  in the order \<open>(b, g, r)\<close>, transpose again. The assignment \<^verbatim>\<open>(r, g, b) = torch.chunk(batch, 3)\<close>
  raises \<^verbatim>\<open>ValueError\<close> unless \<^verbatim>\<open>chunk\<close> returns exactly three pieces.
\<close>

definition preprocess_batch :: "'a batch \<Rightarrow> error + 'a batch" where
  "preprocess_batch batch =
     (let batch1 = transpose01 batch in
      case chunk batch1 3 of
        Inl e \<Rightarrow> Inl e
      | Inr pieces \<Rightarrow>
          (case pieces of
             [r, g, b] \<Rightarrow>
               (case cat [b, g, r] of
                  Inl e \<Rightarrow> Inl e
                | Inr batch2 \<Rightarrow> Inr (transpose01 batch2))
           | _ \<Rightarrow> Inl ValueError))"

section \<open>The style loader\<close>

text \<open>
  \<^verbatim>\<open>class StyleLoader\<close>: the fields \<^verbatim>\<open>__init__\<close> sets. \<^verbatim>\<open>self.files\<close> is what
  \<^verbatim>\<open>os.listdir(style_folder)\<close> returned, in the order it returned it; the file system
  is a parameter of the constructor.
\<close>

record StyleLoader =
  folder :: string
  style_size :: nat
  files :: "string list"
  cuda :: bool

definition StyleLoader_init ::
  "(string \<Rightarrow> string list) \<Rightarrow> string \<Rightarrow> nat \<Rightarrow> bool \<Rightarrow> StyleLoader" where
  "StyleLoader_init listdir style_folder size' use_cuda =
     \<lparr>folder = style_folder, style_size = size', files = listdir style_folder, cuda = use_cuda\<rparr>"

text \<open>\<^verbatim>\<open>StyleLoader.size\<close>.\<close>

definition size_loader :: "StyleLoader \<Rightarrow> int" where
  "size_loader self = int (length (files self))"

text \<open>\<^verbatim>\<open>os.path.join(a, b)\<close> for two components, on a POSIX system.\<close>

definition path_join :: "string \<Rightarrow> string \<Rightarrow> string" where
  "path_join a b =
     (if b \<noteq> [] \<and> hd b = CHR ''/'' then b
      else if a = [] \<or> last a = CHR ''/'' then a @ b
      else a @ ''/'' @ b)"

text \<open>
  The first line of \<^verbatim>\<open>StyleLoader.get\<close>: \<^verbatim>\<open>idx = i % len(self.files)\<close>. Python's \<open>%\<close>
  raises on a zero divisor and otherwise takes the sign of the divisor, as \<open>mod\<close> on
  \<open>int\<close> does.
\<close>

definition get_idx :: "StyleLoader \<Rightarrow> int \<Rightarrow> error + int" where
  "get_idx self i =
     (if length (files self) = 0 then Inl ZeroDivisionError
      else Inr (i mod int (length (files self))))"

text \<open>
  \<^verbatim>\<open>self.files[idx]\<close>: Python's list indexing, with a negative index counted from the
  end and \<^verbatim>\<open>IndexError\<close> outside the list.
\<close>

definition py_index :: "'a list \<Rightarrow> int \<Rightarrow> error + 'a" where
  "py_index xs i =
     (if i < - int (length xs) \<or> int (length xs) \<le> i then Inl IndexError
      else if i < 0 then Inr (xs ! nat (i + int (length xs)))
      else Inr (xs ! nat i))"

text \<open>
  The second line: the path of the file that is read,
  \<^verbatim>\<open>os.path.join(self.folder, self.files[idx])\<close>.
\<close>

definition get_filepath :: "StyleLoader \<Rightarrow> int \<Rightarrow> error + string" where
  "get_filepath self i =
     (case get_idx self i of
        Inl e \<Rightarrow> Inl e
      | Inr idx \<Rightarrow>
          (case py_index (files self) idx of
             Inl e \<Rightarrow> Inl e
           | Inr name \<Rightarrow> Inr (path_join (folder self) name)))"

text \<open>
  \<^verbatim>\<open>StyleLoader.get\<close>. Reading and resizing the image
  (\<^verbatim>\<open>tensor_load_rgbimage(filepath, self.style_size)\<close>) is a parameter: it gives the
  channel planes of the image at a path, or fails, and it is the only access to a file that
  \<^verbatim>\<open>get\<close> makes. \<^verbatim>\<open>unsqueeze(0)\<close> makes the batch of that one image and
  \<^verbatim>\<open>preprocess_batch\<close> reorders its channels. When \<^verbatim>\<open>self.cuda\<close> is set the batch
  is moved with \<^verbatim>\<open>style.cuda()\<close>, which raises on a machine without an accelerator
  (whether there is one is the parameter \<open>cuda_available\<close>); the result is paired with
  the device it is on, \<open>True\<close> for the accelerator.
\<close>

definition unsqueeze0 :: "'a list \<Rightarrow> 'a batch" where
  "unsqueeze0 planes = \<lparr>dim0 = 1, dim1 = length planes, elems = [planes]\<rparr>"

definition get ::
  "(string \<Rightarrow> nat \<Rightarrow> error + 'a list) \<Rightarrow> bool \<Rightarrow> StyleLoader \<Rightarrow> int
     \<Rightarrow> error + (bool \<times> 'a batch)" where
  "get tensor_load_rgbimage cuda_available self i =
     (case get_filepath self i of
        Inl e \<Rightarrow> Inl e
      | Inr filepath \<Rightarrow>
          (case tensor_load_rgbimage filepath (style_size self) of
             Inl e \<Rightarrow> Inl e
           | Inr planes \<Rightarrow>
               (case preprocess_batch (unsqueeze0 planes) of
                  Inl e \<Rightarrow> Inl e
                | Inr style \<Rightarrow>
                    if cuda self then
                      (if cuda_available then Inr (True, style) else Inl CudaUnavailable)
                    else Inr (False, style))))"

text \<open>
  What \<^verbatim>\<open>get\<close> does with the file once its path is known: the last five statements of
  \<^verbatim>\<open>get\<close>, as a function of the path.
\<close>

definition load_style ::
  "(string \<Rightarrow> nat \<Rightarrow> error + 'a list) \<Rightarrow> bool \<Rightarrow> StyleLoader \<Rightarrow> string
     \<Rightarrow> error + (bool \<times> 'a batch)" where
  "load_style tensor_load_rgbimage cuda_available self filepath =
     (case tensor_load_rgbimage filepath (style_size self) of
        Inl e \<Rightarrow> Inl e
      | Inr planes \<Rightarrow>
          (case preprocess_batch (unsqueeze0 planes) of
             Inl e \<Rightarrow> Inl e
           | Inr style \<Rightarrow>
               if cuda self then
                 (if cuda_available then Inr (True, style) else Inl CudaUnavailable)
               else Inr (False, style)))"

text \<open>A loader of files for the examples: it can read one file only, at one size.\<close>

definition only_file :: "string \<Rightarrow> nat \<Rightarrow> string list \<Rightarrow> string \<Rightarrow> nat \<Rightarrow> error + string list" where
  "only_file path size' planes p n = (if p = path \<and> n = size' then Inr planes else Inl LoadError)"
section \<open>Tensor elements\<close>

text \<open>
  A tensor element is a floating-point number. The model keeps the four kinds of value
  the arithmetic of the code can produce and the rules by which the special ones arise
  and spread (a division by zero, \<open>0 / 0\<close>, \<open>0 * inf\<close>, \<open>inf - inf\<close>), and computes on
  finite values exactly: there is no rounding, no overflow and one zero only. What is
  proved of a finite value is therefore proved of the computation carried out without
  rounding; where the machine's result matters, it is a matrix within a stated distance of
  that one, and what is proved of special values does not depend on which finite values
  surround them.
\<close>

datatype fl = Fin real | PInf | NInf | NaN

fun fneg :: "fl \<Rightarrow> fl" where
  "fneg (Fin x) = Fin (- x)"
| "fneg PInf = NInf"
| "fneg NInf = PInf"
| "fneg NaN = NaN"

fun fadd :: "fl \<Rightarrow> fl \<Rightarrow> fl" where
  "fadd (Fin x) (Fin y) = Fin (x + y)"
| "fadd NaN b = NaN"
| "fadd a NaN = NaN"
| "fadd PInf NInf = NaN"
| "fadd NInf PInf = NaN"
| "fadd PInf b = PInf"
| "fadd a PInf = PInf"
| "fadd NInf b = NInf"
| "fadd a NInf = NInf"

definition fsub :: "fl \<Rightarrow> fl \<Rightarrow> fl" where
  "fsub a b = fadd a (fneg b)"

fun fmul :: "fl \<Rightarrow> fl \<Rightarrow> fl" where
  "fmul (Fin x) (Fin y) = Fin (x * y)"
| "fmul NaN b = NaN"
| "fmul a NaN = NaN"
| "fmul (Fin x) PInf = (if x = 0 then NaN else if 0 < x then PInf else NInf)"
| "fmul (Fin x) NInf = (if x = 0 then NaN else if 0 < x then NInf else PInf)"
| "fmul PInf (Fin y) = (if y = 0 then NaN else if 0 < y then PInf else NInf)"
| "fmul NInf (Fin y) = (if y = 0 then NaN else if 0 < y then NInf else PInf)"
| "fmul PInf PInf = PInf"
| "fmul PInf NInf = NInf"
| "fmul NInf PInf = NInf"
| "fmul NInf NInf = PInf"

fun fdiv :: "fl \<Rightarrow> fl \<Rightarrow> fl" where
  "fdiv (Fin x) (Fin y) =
     (if y = 0 then (if x = 0 then NaN else if 0 < x then PInf else NInf) else Fin (x / y))"
| "fdiv NaN b = NaN"
| "fdiv a NaN = NaN"
| "fdiv (Fin x) b = Fin 0"
| "fdiv PInf (Fin y) = (if 0 \<le> y then PInf else NInf)"
| "fdiv NInf (Fin y) = (if 0 \<le> y then NInf else PInf)"
| "fdiv a b = NaN"

text \<open>The square root that \<^verbatim>\<open>std\<close> takes of a variance.\<close>

fun fsqrt :: "fl \<Rightarrow> fl" where
  "fsqrt (Fin x) = (if x < 0 then NaN else Fin (sqrt x))"
| "fsqrt PInf = PInf"
| "fsqrt NInf = NaN"
| "fsqrt NaN = NaN"

text \<open>\<^verbatim>\<open>pow(0.5)\<close> on one element.\<close>

fun fpow_half :: "fl \<Rightarrow> fl" where
  "fpow_half (Fin x) = (if x < 0 then NaN else Fin (sqrt x))"
| "fpow_half PInf = PInf"
| "fpow_half NInf = PInf"
| "fpow_half NaN = NaN"


text \<open>
  "Equal within tolerance": both values finite and the difference at most \<open>tol\<close> times
  the size of the expected value.
\<close>

definition close_to :: "real \<Rightarrow> fl \<Rightarrow> fl \<Rightarrow> bool" where
  "close_to tol a b =
     (case (a, b) of (Fin x, Fin y) \<Rightarrow> \<bar>x - y\<bar> \<le> tol * \<bar>y\<bar> | _ \<Rightarrow> False)"

definition fsum :: "fl list \<Rightarrow> fl" where
  "fsum xs = foldr fadd xs (Fin 0)"

section \<open>Matrices\<close>

text \<open>
  A 2-dimensional tensor is the list of its rows. A tensor of shape \<open>(3, 1)\<close>, as
  \<^verbatim>\<open>mean(1, True)\<close> and \<^verbatim>\<open>std(1, True)\<close> return it, is the list of its three elements,
  and the arithmetic between a \<open>(3, N)\<close> and a \<open>(3, 1)\<close> tensor broadcasts the element
  of a row over that row.
\<close>

type_synonym mat = "fl list list"

definition fin_mat :: "real list list \<Rightarrow> mat" where
  "fin_mat m = map (map Fin) m"

definition mean_row :: "fl list \<Rightarrow> fl" where
  "mean_row row = fdiv (fsum row) (Fin (real (length row)))"

text \<open>The unbiased estimator: the squared deviations are divided by \<open>N - 1\<close>.\<close>

definition std_row :: "fl list \<Rightarrow> fl" where
  "std_row row =
     fsqrt (fdiv (fsum (map (\<lambda>x. fmul (fsub x (mean_row row)) (fsub x (mean_row row))) row))
                 (Fin (real (length row) - 1)))"

text \<open>\<^verbatim>\<open>m.mean(1, True)\<close> and \<^verbatim>\<open>m.std(1, True)\<close>.\<close>

definition mean1 :: "mat \<Rightarrow> fl list" where
  "mean1 m = map mean_row m"

definition std1 :: "mat \<Rightarrow> fl list" where
  "std1 m = map std_row m"

text \<open>\<^verbatim>\<open>m - c\<close>, \<^verbatim>\<open>m / c\<close>, \<^verbatim>\<open>m * c\<close> and \<^verbatim>\<open>m + c\<close> for \<open>m\<close> of shape \<open>(3, N)\<close> and \<open>c\<close> of shape \<open>(3, 1)\<close>.\<close>

definition sub_col :: "mat \<Rightarrow> fl list \<Rightarrow> mat" where
  "sub_col m c = map2 (\<lambda>row a. map (\<lambda>x. fsub x a) row) m c"

definition div_col :: "mat \<Rightarrow> fl list \<Rightarrow> mat" where
  "div_col m c = map2 (\<lambda>row a. map (\<lambda>x. fdiv x a) row) m c"

definition mul_col :: "mat \<Rightarrow> fl list \<Rightarrow> mat" where
  "mul_col m c = map2 (\<lambda>row a. map (\<lambda>x. fmul x a) row) m c"

definition add_col :: "mat \<Rightarrow> fl list \<Rightarrow> mat" where
  "add_col m c = map2 (\<lambda>row a. map (\<lambda>x. fadd x a) row) m c"

text \<open>\<^verbatim>\<open>m.t()\<close>.\<close>

definition mat_t :: "mat \<Rightarrow> mat" where
  "mat_t m = transpose m"

definition dot :: "fl list \<Rightarrow> fl list \<Rightarrow> fl" where
  "dot u v = fsum (map2 fmul u v)"

text \<open>The matrix product \<^verbatim>\<open>a @ b\<close>: row of \<open>a\<close> times column of \<open>b\<close>.\<close>

definition matmul :: "mat \<Rightarrow> mat \<Rightarrow> mat" where
  "matmul a b = map (\<lambda>row. map (\<lambda>col. dot row col) (transpose b)) a"

text \<open>The product \<^verbatim>\<open>a * b\<close> of two tensors of one shape: element by element.\<close>

definition mul_elem :: "mat \<Rightarrow> mat \<Rightarrow> mat" where
  "mul_elem a b = map2 (map2 fmul) a b"

definition add_elem :: "mat \<Rightarrow> mat \<Rightarrow> mat" where
  "add_elem a b = map2 (map2 fadd) a b"

text \<open>\<^verbatim>\<open>torch.eye(n)\<close> and \<^verbatim>\<open>v.diag()\<close> for a vector \<open>v\<close>.\<close>

definition diag :: "fl list \<Rightarrow> mat" where
  "diag v = map (\<lambda>i. map (\<lambda>j. if i = j then v ! i else Fin 0) [0..<length v]) [0..<length v]"

definition eye :: "nat \<Rightarrow> mat" where
  "eye n = diag (replicate n (Fin 1))"

text \<open>
  \<^verbatim>\<open>a.inverse()\<close>. The code only inverts the \<open>3 \<times> 3\<close> result of \<^verbatim>\<open>matSqrt\<close>. The
  library raises on a singular matrix and otherwise returns the one inverse there is,
  here by cofactors.
\<close>

definition det3 :: "mat \<Rightarrow> fl" where
  "det3 m =
     (case m of
        [[a, b, c], [d, e, f], [g, h, i]] \<Rightarrow>
          fadd (fsub (fmul a (fsub (fmul e i) (fmul f h)))
                     (fmul b (fsub (fmul d i) (fmul f g))))
               (fmul c (fsub (fmul d h) (fmul e g)))
      | _ \<Rightarrow> NaN)"

definition adjugate3 :: "mat \<Rightarrow> mat" where
  "adjugate3 m =
     (case m of
        [[a, b, c], [d, e, f], [g, h, i]] \<Rightarrow>
          [[fsub (fmul e i) (fmul f h), fsub (fmul c h) (fmul b i), fsub (fmul b f) (fmul c e)],
           [fsub (fmul f g) (fmul d i), fsub (fmul a i) (fmul c g), fsub (fmul c d) (fmul a f)],
           [fsub (fmul d h) (fmul e g), fsub (fmul b g) (fmul a h), fsub (fmul a e) (fmul b d)]]
      | _ \<Rightarrow> [])"

definition is_3x3 :: "'a list list \<Rightarrow> bool" where
  "is_3x3 m \<longleftrightarrow> length m = 3 \<and> list_all (\<lambda>row. length row = 3) m"

definition inverse_mat :: "mat \<Rightarrow> error + mat" where
  "inverse_mat m =
     (if \<not> is_3x3 m then Inl SizeMismatch
      else if det3 m = Fin 0 then Inl SingularMatrix
      else Inr (map (map (\<lambda>x. fdiv x (det3 m))) (adjugate3 m)))"

section \<open>Image tensors\<close>

datatype device = CPU | CUDA

text \<open>
  A tensor as the library holds it: its shape, its elements in row-major order, and the
  memory it lives in.
\<close>

record tensor =
  shape :: "nat list"
  data :: "fl list"
  device :: device


text \<open>
  \<^verbatim>\<open>x.view(3, -1)\<close>: three rows of \<open>numel / 3\<close> elements each. The library refuses a
  number of elements that three does not divide, and cannot infer the \<open>-1\<close> of a tensor
  with no element.
\<close>

definition view3 :: "tensor \<Rightarrow> error + mat" where
  "view3 x =
     (let n = length (data x) in
      if n = 0 \<or> n mod 3 \<noteq> 0 then Inl SizeMismatch
      else Inr (map (\<lambda>k. take (n div 3) (drop (k * (n div 3)) (data x))) [0..<3]))"

text \<open>\<^verbatim>\<open>m.view_as(x)\<close>: the elements of \<open>m\<close> under the shape of \<open>x\<close>.\<close>

definition view_as :: "mat \<Rightarrow> tensor \<Rightarrow> error + tensor" where
  "view_as m x =
     (if length (concat m) = prod_list (shape x)
      then Inr \<lparr>shape = shape x, data = concat m, device = device x\<rparr>
      else Inl SizeMismatch)"

section \<open>The matrix square root and the colour transfer\<close>

text \<open>
  \<^verbatim>\<open>torch.svd\<close> belongs to the library, not to this code: it is a parameter, a function
  that either fails or returns the three factors \<open>(U, D, V)\<close>.
\<close>

type_synonym svd_routine = "mat \<Rightarrow> (mat \<times> fl list \<times> mat) option"

text \<open>
  \<^verbatim>\<open>matSqrt\<close>:
  \<^verbatim>\<open>U,D,V = torch.svd(x); return U * (D.pow(0.5).diag()) * V.t()\<close>.
  Between tensors \<open>*\<close> is the product element by element (the matrix product is \<open>@\<close>).
\<close>

definition matSqrt :: "svd_routine \<Rightarrow> mat \<Rightarrow> error + mat" where
  "matSqrt svd x =
     (case svd x of
        None \<Rightarrow> Inl SvdFailure
      | Some (U, D, V) \<Rightarrow> Inr (mul_elem (mul_elem U (diag (map fpow_half D))) (mat_t V)))"

text \<open>
  \<^verbatim>\<open>color_match(src, dst, cuda)\<close>, line by line. \<open>use_cuda\<close> is the argument \<^verbatim>\<open>cuda\<close> and
  \<open>cuda_available\<close> what
  \<^verbatim>\<open>torch.cuda.is_available()\<close> answers. The identity matrix is created on the device
  the flag selects, and the library refuses to add tensors of two devices. In line 161,
  \<open>*\<close> and \<open>@\<close> bind equally and group to the left:
  \<^verbatim>\<open>(matSqrt(dst_cov) * matSqrt(src_cov).inverse()) @ src_norm\<close>.
\<close>

definition color_match ::
  "svd_routine \<Rightarrow> bool \<Rightarrow> tensor \<Rightarrow> tensor \<Rightarrow> bool \<Rightarrow> error + tensor" where
  "color_match svd cuda_available src dst use_cuda =
     (case view3 src of Inl e \<Rightarrow> Inl e | Inr src_flat \<Rightarrow>
      case view3 dst of Inl e \<Rightarrow> Inl e | Inr dst_flat \<Rightarrow>
        let src_mean = mean1 src_flat;
            src_std = std1 src_flat;
            src_norm = div_col (sub_col src_flat src_mean) src_std;
            dst_mean = mean1 dst_flat;
            dst_std = std1 dst_flat;
            dst_norm = div_col (sub_col dst_flat dst_mean) dst_std;
            cud = (use_cuda \<and> cuda_available);
            eye_device = (if cud then CUDA else CPU)
        in
        if device src = eye_device \<and> device dst = eye_device then
          let src_flat_cov_eye = add_elem (matmul src_norm (mat_t src_norm)) (eye 3);
              dst_flat_cov_eye = add_elem (matmul dst_norm (mat_t dst_norm)) (eye 3)
          in
          case matSqrt svd dst_flat_cov_eye of Inl e \<Rightarrow> Inl e | Inr sqrt_dst \<Rightarrow>
          case matSqrt svd src_flat_cov_eye of Inl e \<Rightarrow> Inl e | Inr sqrt_src \<Rightarrow>
          case inverse_mat sqrt_src of Inl e \<Rightarrow> Inl e | Inr inv_sqrt_src \<Rightarrow>
            let src_flat_nrom_trans = matmul (mul_elem sqrt_dst inv_sqrt_src) src_norm;
                src_flat_transfer = add_col (mul_col src_flat_nrom_trans dst_std) dst_mean
            in view_as src_flat_transfer src
        else Inl DeviceMismatch)"

section \<open>Predicates on results, and example inputs\<close>

text \<open>
  An element is zero, or not a number: what an element off the diagonal becomes when it is
  multiplied by an element off the diagonal of \<^verbatim>\<open>D.pow(0.5).diag()\<close>, which is zero.
\<close>

definition zero_or_nan :: "fl \<Rightarrow> bool" where
  "zero_or_nan a \<longleftrightarrow> a = Fin 0 \<or> a = NaN"

text \<open>
  A 3-by-3 matrix whose six elements off the diagonal are all zero or not a number.
\<close>

definition off_diag_zn :: "mat \<Rightarrow> bool" where
  "off_diag_zn m =
     (case m of
        [[a, b, c], [d, e, f], [g, h, i]] \<Rightarrow>
          zero_or_nan b \<and> zero_or_nan c \<and> zero_or_nan d \<and> zero_or_nan f \<and> zero_or_nan g
          \<and> zero_or_nan h
      | _ \<Rightarrow> False)"

text \<open>
  The decomposition routine returns, with factors of the shapes \<^verbatim>\<open>torch.svd\<close> gives for a
  3-by-3 matrix. Nothing is asked of the values of the factors.
\<close>

definition svd_shaped :: "svd_routine \<Rightarrow> mat \<Rightarrow> bool" where
  "svd_shaped svd x =
     (case svd x of
        None \<Rightarrow> False
      | Some (U, D, V) \<Rightarrow> is_3x3 U \<and> length D = 3 \<and> is_3x3 V)"

text \<open>
  Three finite singular values, none negative, in descending order.
\<close>

definition descending :: "fl list \<Rightarrow> bool" where
  "descending D =
     (case D of
        [Fin a, Fin b, Fin c] \<Rightarrow> a \<ge> b \<and> b \<ge> c \<and> c \<ge> 0
      | _ \<Rightarrow> False)"

text \<open>
  \<open>(U, D, V)\<close> is a singular value decomposition of \<open>x\<close>: \<open>U\<close> and \<open>V\<close> are orthogonal,
  \<open>D\<close> is descending, and \<open>U diag(D) V\<^sup>T = x\<close>, all computed exactly.
\<close>

definition is_svd :: "mat \<Rightarrow> mat \<times> fl list \<times> mat \<Rightarrow> bool" where
  "is_svd x udv =
     (case udv of
        (U, D, V) \<Rightarrow>
          is_3x3 U \<and> is_3x3 V \<and> descending D
          \<and> matmul (mat_t U) U = eye 3 \<and> matmul (mat_t V) V = eye 3
          \<and> matmul (matmul U (diag D)) (mat_t V) = x)"

text \<open>
  A symmetric positive definite matrix with eigenvalues 81, 36 and 9, its square root (with
  eigenvalues 9, 6 and 3), and the orthogonal matrix of their common eigenvectors.
\<close>

definition spd_example :: mat where
  "spd_example = fin_mat [[29, 22, 4], [22, 44, 26], [4, 26, 53]]"

definition root_example :: mat where
  "root_example = fin_mat [[5, 2, 0], [2, 6, 2], [0, 2, 7]]"

definition U_example :: mat where
  "U_example = fin_mat [[1/3, 2/3, 2/3], [2/3, 1/3, - 2/3], [2/3, - 2/3, 1/3]]"

text \<open>
  The matrices \<open>norm norm\<^sup>T + I\<close> of the example images below, and the eigenvectors of the
  one that is not diagonal (its eigenvalues are 9, 5 and 1).
\<close>

definition cov9 :: mat where
  "cov9 = fin_mat [[9, 0, 0], [0, 9, 0], [0, 0, 9]]"

definition cov5 :: mat where
  "cov5 = fin_mat [[5, 0, 0], [0, 5, 0], [0, 0, 5]]"

definition cov_corr :: mat where
  "cov_corr = fin_mat [[5, 4, 0], [4, 5, 0], [0, 0, 5]]"

definition U_corr :: mat where
  "U_corr = fin_mat [[sqrt 2 / 2, 0, sqrt 2 / 2], [sqrt 2 / 2, 0, - (sqrt 2 / 2)], [0, 1, 0]]"

text \<open>
  A decomposition routine for the examples: a table of exact singular value decompositions
  of the four matrices above. It fails on every other matrix.
\<close>

definition svd_table :: svd_routine where
  "svd_table x =
     (if x = spd_example then Some (U_example, [Fin 81, Fin 36, Fin 9], U_example)
      else if x = cov9 then Some (eye 3, [Fin 9, Fin 9, Fin 9], eye 3)
      else if x = cov_corr then Some (U_corr, [Fin 9, Fin 5, Fin 1], U_corr)
      else if x = cov5 then Some (eye 3, [Fin 5, Fin 5, Fin 5], eye 3)
      else None)"

text \<open>
  The statements \<^verbatim>\<open>(flat - mean) / std\<close> and \<^verbatim>\<open>norm @ norm.t() + eye(3)\<close> of
  \<^verbatim>\<open>color_match\<close>, as functions of the flattened image.
\<close>

definition normalized :: "mat \<Rightarrow> mat" where
  "normalized m = div_col (sub_col m (mean1 m)) (std1 m)"

definition cov_eye :: "mat \<Rightarrow> mat" where
  "cov_eye n = add_elem (matmul n (mat_t n)) (eye 3)"

text \<open>
  Example images, given by their three channels, and the channels normalised. Image A has
  nine pixels and uncorrelated channels; in image B, of five pixels, the first two channels
  differ by a constant.
\<close>

definition flatA :: mat where
  "flatA = fin_mat [[5, 5, 5, 5, 1, 1, 1, 1, 3], [2, 2, 0, 0, 2, 2, 0, 0, 1], [6, 2, 6, 2, 6, 2, 6, 2, 4]]"

definition normA :: mat where
  "normA = fin_mat [[1, 1, 1, 1, -1, -1, -1, -1, 0], [1, 1, -1, -1, 1, 1, -1, -1, 0],
                    [1, -1, 1, -1, 1, -1, 1, -1, 0]]"

definition flatB :: mat where
  "flatB = fin_mat [[0, 0, 1, 2, 2], [3, 3, 5, 7, 7], [2, 0, 1, 0, 2]]"

definition normB :: mat where
  "normB = fin_mat [[-1, -1, 0, 1, 1], [-1, -1, 0, 1, 1], [1, -1, 0, -1, 1]]"

definition imgA :: tensor where
  "imgA = \<lparr>shape = [3, 3, 3], data = concat flatA, device = CPU\<rparr>"

definition imgB :: tensor where
  "imgB = \<lparr>shape = [3, 1, 5], data = concat flatB, device = CPU\<rparr>"

text \<open>
  What \<^verbatim>\<open>color_match\<close> returns on images A and B.
\<close>

definition outAB :: tensor where
  "outAB = \<lparr>shape = [3, 3, 3],
            data = map Fin [3/2, 3/2, 3/2, 3/2, 1/2, 1/2, 1/2, 1/2, 1,  5, 5, 5, 5, 5, 5, 5, 5, 5,
                            1, 1, 1, 1, 1, 1, 1, 1, 1],
            device = CPU\<rparr>"

text \<open>
  Modelled from the specification, not from the code: the transform is the matrix product
  \<open>T = sqrt(dst_cov) \<cdot> inverse(sqrt(src_cov))\<close>, applied to the normalised source as a matrix
  product, for a given matrix square root \<open>msqrt\<close>. It is only ever compared with
  \<^verbatim>\<open>color_match\<close>.
\<close>

definition color_match_spec :: "(mat \<Rightarrow> mat) \<Rightarrow> tensor \<Rightarrow> tensor \<Rightarrow> error + tensor" where
  "color_match_spec msqrt src dst =
     (case view3 src of Inl e \<Rightarrow> Inl e | Inr src_flat \<Rightarrow>
      case view3 dst of Inl e \<Rightarrow> Inl e | Inr dst_flat \<Rightarrow>
        let src_norm = normalized src_flat;
            dst_norm = normalized dst_flat;
            src_cov = cov_eye src_norm;
            dst_cov = cov_eye dst_norm
        in
        case inverse_mat (msqrt src_cov) of Inl e \<Rightarrow> Inl e | Inr inv_sqrt_src \<Rightarrow>
          let T = matmul (msqrt dst_cov) inv_sqrt_src;
              transformed = matmul T src_norm
          in view_as (add_col (mul_col transformed (std1 dst_flat)) (mean1 dst_flat)) src)"

text \<open>
  The exact square roots of the example covariance matrices, as a function to hand to the
  definition above, and what that definition returns on images A and B.
\<close>

definition root_corr :: mat where
  "root_corr = fin_mat [[2, 1, 0], [1, 2, 0], [0, 0, sqrt 5]]"

definition root_table :: "mat \<Rightarrow> mat" where
  "root_table x =
     (if x = cov9 then fin_mat [[3, 0, 0], [0, 3, 0], [0, 0, 3]]
      else if x = cov_corr then root_corr
      else if x = cov5 then fin_mat [[sqrt 5, 0, 0], [0, sqrt 5, 0], [0, 0, sqrt 5]]
      else root_example)"

definition specAB :: tensor where
  "specAB = \<lparr>shape = [3, 3, 3],
             data = map Fin [2, 2, 4/3, 4/3, 2/3, 2/3, 0, 0, 1,
                             7, 7, 13/3, 13/3, 17/3, 17/3, 3, 3, 5,
                             1 + sqrt 5 / 3, 1 - sqrt 5 / 3, 1 + sqrt 5 / 3, 1 - sqrt 5 / 3,
                             1 + sqrt 5 / 3, 1 - sqrt 5 / 3, 1 + sqrt 5 / 3, 1 - sqrt 5 / 3, 1],
             device = CPU\<rparr>"















text \<open>
  The channels of the result on images A and B.
\<close>

definition flat_outAB :: mat where
  "flat_outAB = fin_mat [[3/2, 3/2, 3/2, 3/2, 1/2, 1/2, 1/2, 1/2, 1], [5, 5, 5, 5, 5, 5, 5, 5, 5],
                         [1, 1, 1, 1, 1, 1, 1, 1, 1]]"

text \<open>
  The normalisation of one channel.
\<close>

definition normalize_row :: "fl list \<Rightarrow> fl list" where
  "normalize_row r = map (\<lambda>x. fdiv (fsub x (mean_row r)) (std_row r)) r"























text \<open>The result on images A and C with every element cut after three decimals.\<close>

definition cut_outAC :: mat where
  "cut_outAC =
     fin_mat [[1745 / 1000, 1745 / 1000, 1745 / 1000, 1745 / 1000,
               254 / 1000, 254 / 1000, 254 / 1000, 254 / 1000, 1],
              [3490 / 1000, 3490 / 1000, 509 / 1000, 509 / 1000,
               3490 / 1000, 3490 / 1000, 509 / 1000, 509 / 1000, 2],
              [1745 / 1000, 254 / 1000, 1745 / 1000, 254 / 1000,
               1745 / 1000, 254 / 1000, 1745 / 1000, 254 / 1000, 1]]"
section \<open>Tensors in memory\<close>

text \<open>
  To say what a call leaves untouched, tensors live in a store. A storage cell holds the
  elements of one allocation, flat as an image is loaded or as the rows of a matrix result.
  A tensor object is a reference: the address of its storage, the shape it is seen under,
  whether it is seen transposed, and its device. \<^verbatim>\<open>view\<close>, \<^verbatim>\<open>view_as\<close> and \<^verbatim>\<open>t()\<close>
  return a new reference to the same storage; every arithmetic operation of the code
  (\<open>-\<close>, \<open>/\<close>, \<open>*\<close>, \<open>+\<close>, \<open>@\<close>, \<^verbatim>\<open>mean\<close>, \<^verbatim>\<open>std\<close>, \<^verbatim>\<open>pow\<close>, \<^verbatim>\<open>diag\<close>, \<^verbatim>\<open>svd\<close>,
  \<^verbatim>\<open>inverse\<close>, \<^verbatim>\<open>eye\<close>, \<^verbatim>\<open>cuda\<close>) allocates the storage of its result.
\<close>

datatype cell = Flat "fl list" | Rows mat

record heap =
  cells :: "nat \<Rightarrow> cell option"
  next_free :: nat

record tref =
  addr :: nat
  transposed :: bool
  tshape :: "nat list"
  tdevice :: device

text \<open>A computation on the store: it fails or returns a value, and leaves a store.\<close>

type_synonym 'a st = "heap \<Rightarrow> (error + 'a) \<times> heap"

definition return_st :: "'a \<Rightarrow> 'a st" where
  "return_st x h = (Inr x, h)"

definition raise_st :: "error \<Rightarrow> 'a st" where
  "raise_st e h = (Inl e, h)"

definition bind_st :: "'a st \<Rightarrow> ('a \<Rightarrow> 'b st) \<Rightarrow> 'b st" where
  "bind_st f g h = (case f h of (Inl e, h') \<Rightarrow> (Inl e, h') | (Inr x, h') \<Rightarrow> g x h')"

definition alloc :: "cell \<Rightarrow> nat list \<Rightarrow> device \<Rightarrow> tref st" where
  "alloc c s d h =
     (Inr \<lparr>addr = next_free h, transposed = False, tshape = s, tdevice = d\<rparr>,
      \<lparr>cells = (cells h)(next_free h \<mapsto> c), next_free = Suc (next_free h)\<rparr>)"

definition new_mat :: "device \<Rightarrow> mat \<Rightarrow> tref st" where
  "new_mat d m = alloc (Rows m) [length m, (case m of [] \<Rightarrow> 0 | row # rest \<Rightarrow> length row)] d"

definition new_vec :: "device \<Rightarrow> fl list \<Rightarrow> tref st" where
  "new_vec d v = alloc (Flat v) [length v, 1] d"

text \<open>Reading a tensor as a matrix, or as the flat list of its elements.\<close>

definition get_mat :: "tref \<Rightarrow> mat st" where
  "get_mat r h =
     (case cells h (addr r) of
        None \<Rightarrow> (Inl InvalidReference, h)
      | Some (Rows m) \<Rightarrow> (Inr (if transposed r then mat_t m else m), h)
      | Some (Flat d) \<Rightarrow>
          (case tshape r of
             [rows, n] \<Rightarrow>
               (let m = map (\<lambda>k. take n (drop (k * n) d)) [0..<rows]
                in (Inr (if transposed r then mat_t m else m), h))
           | _ \<Rightarrow> (Inl SizeMismatch, h)))"

definition get_vec :: "tref \<Rightarrow> fl list st" where
  "get_vec r h =
     (case cells h (addr r) of
        None \<Rightarrow> (Inl InvalidReference, h)
      | Some (Rows m) \<Rightarrow> (Inr (concat m), h)
      | Some (Flat d) \<Rightarrow> (Inr d, h))"

text \<open>The tensor value a reference stands for in a store.\<close>

definition deref :: "heap \<Rightarrow> tref \<Rightarrow> tensor option" where
  "deref h r =
     (case cells h (addr r) of
        None \<Rightarrow> None
      | Some (Rows m) \<Rightarrow> Some \<lparr>shape = tshape r, data = concat m, device = tdevice r\<rparr>
      | Some (Flat d) \<Rightarrow> Some \<lparr>shape = tshape r, data = d, device = tdevice r\<rparr>)"

text \<open>The views: \<^verbatim>\<open>x.view(3, -1)\<close>, \<^verbatim>\<open>m.t()\<close> and \<^verbatim>\<open>m.view_as(x)\<close>.\<close>

definition st_view3 :: "tref \<Rightarrow> tref st" where
  "st_view3 x =
     bind_st (get_vec x) (\<lambda>d.
       let n = length d in
       if n = 0 \<or> n mod 3 \<noteq> 0 then raise_st SizeMismatch
       else return_st (x\<lparr>tshape := [3, n div 3]\<rparr>))"

definition st_t :: "tref \<Rightarrow> tref st" where
  "st_t m = return_st (m\<lparr>transposed := \<not> transposed m\<rparr>)"

definition st_view_as :: "tref \<Rightarrow> tref \<Rightarrow> tref st" where
  "st_view_as m x =
     bind_st (get_vec m) (\<lambda>d.
       if length d = prod_list (tshape x)
       then return_st \<lparr>addr = addr m, transposed = False, tshape = tshape x, tdevice = tdevice m\<rparr>
       else raise_st SizeMismatch)"

text \<open>The operations that allocate.\<close>

definition st_mean1 :: "tref \<Rightarrow> tref st" where
  "st_mean1 a = bind_st (get_mat a) (\<lambda>m. new_vec (tdevice a) (mean1 m))"

definition st_std1 :: "tref \<Rightarrow> tref st" where
  "st_std1 a = bind_st (get_mat a) (\<lambda>m. new_vec (tdevice a) (std1 m))"

definition st_col_op :: "(mat \<Rightarrow> fl list \<Rightarrow> mat) \<Rightarrow> tref \<Rightarrow> tref \<Rightarrow> tref st" where
  "st_col_op f a c =
     bind_st (get_mat a) (\<lambda>m. bind_st (get_vec c) (\<lambda>v. new_mat (tdevice a) (f m v)))"

definition st_matmul :: "tref \<Rightarrow> tref \<Rightarrow> tref st" where
  "st_matmul a b =
     bind_st (get_mat a) (\<lambda>m. bind_st (get_mat b) (\<lambda>m'. new_mat (tdevice a) (matmul m m')))"

definition st_mul :: "tref \<Rightarrow> tref \<Rightarrow> tref st" where
  "st_mul a b =
     bind_st (get_mat a) (\<lambda>m. bind_st (get_mat b) (\<lambda>m'. new_mat (tdevice a) (mul_elem m m')))"

definition st_add :: "tref \<Rightarrow> tref \<Rightarrow> tref st" where
  "st_add a b =
     (if tdevice a = tdevice b
      then bind_st (get_mat a) (\<lambda>m. bind_st (get_mat b) (\<lambda>m'. new_mat (tdevice a) (add_elem m m')))
      else raise_st DeviceMismatch)"

definition st_eye :: "nat \<Rightarrow> tref st" where
  "st_eye n = new_mat CPU (eye n)"

definition st_cuda :: "tref \<Rightarrow> tref st" where
  "st_cuda a = bind_st (get_mat a) (\<lambda>m. new_mat CUDA m)"

definition st_pow_half :: "tref \<Rightarrow> tref st" where
  "st_pow_half a = bind_st (get_vec a) (\<lambda>v. new_vec (tdevice a) (map fpow_half v))"

definition st_diag :: "tref \<Rightarrow> tref st" where
  "st_diag a = bind_st (get_vec a) (\<lambda>v. new_mat (tdevice a) (diag v))"

definition st_svd :: "svd_routine \<Rightarrow> tref \<Rightarrow> (tref \<times> tref \<times> tref) st" where
  "st_svd svd x =
     bind_st (get_mat x) (\<lambda>m.
       case svd m of
         None \<Rightarrow> raise_st SvdFailure
       | Some (U, D, V) \<Rightarrow>
           bind_st (new_mat (tdevice x) U) (\<lambda>u.
           bind_st (new_vec (tdevice x) D) (\<lambda>d.
           bind_st (new_mat (tdevice x) V) (\<lambda>v.
           return_st (u, d, v)))))"

definition st_inverse :: "tref \<Rightarrow> tref st" where
  "st_inverse a =
     bind_st (get_mat a) (\<lambda>m.
       case inverse_mat m of
         Inl e \<Rightarrow> raise_st e
       | Inr m' \<Rightarrow> new_mat (tdevice a) m')"

text \<open>\<^verbatim>\<open>matSqrt\<close> and \<^verbatim>\<open>color_match\<close> again, statement by statement, on the store.\<close>

definition matSqrt_st :: "svd_routine \<Rightarrow> tref \<Rightarrow> tref st" where
  "matSqrt_st svd x =
     bind_st (st_svd svd x) (\<lambda>(U, D, V).
     bind_st (st_pow_half D) (\<lambda>D_pow.
     bind_st (st_diag D_pow) (\<lambda>D_diag.
     bind_st (st_mul U D_diag) (\<lambda>UD.
     bind_st (st_t V) (\<lambda>V_t.
     st_mul UD V_t)))))"

definition st_eye_on :: "bool \<Rightarrow> tref st" where
  "st_eye_on cud = (if cud then bind_st (st_eye 3) st_cuda else st_eye 3)"

definition color_match_st :: "svd_routine \<Rightarrow> bool \<Rightarrow> tref \<Rightarrow> tref \<Rightarrow> bool \<Rightarrow> tref st" where
  "color_match_st svd cuda_available src dst use_cuda =
     bind_st (st_view3 src) (\<lambda>src_flat.
     bind_st (st_view3 dst) (\<lambda>dst_flat.
     bind_st (st_mean1 src_flat) (\<lambda>src_mean.
     bind_st (st_std1 src_flat) (\<lambda>src_std.
     bind_st (st_col_op sub_col src_flat src_mean) (\<lambda>src_centred.
     bind_st (st_col_op div_col src_centred src_std) (\<lambda>src_norm.
     bind_st (st_mean1 dst_flat) (\<lambda>dst_mean.
     bind_st (st_std1 dst_flat) (\<lambda>dst_std.
     bind_st (st_col_op sub_col dst_flat dst_mean) (\<lambda>dst_centred.
     bind_st (st_col_op div_col dst_centred dst_std) (\<lambda>dst_norm.
     let cud = (use_cuda \<and> cuda_available) in
     bind_st (st_t src_norm) (\<lambda>src_norm_t.
     bind_st (st_matmul src_norm src_norm_t) (\<lambda>src_cov.
     bind_st (st_eye_on cud) (\<lambda>eye_src.
     bind_st (st_add src_cov eye_src) (\<lambda>src_flat_cov_eye.
     bind_st (st_t dst_norm) (\<lambda>dst_norm_t.
     bind_st (st_matmul dst_norm dst_norm_t) (\<lambda>dst_cov.
     bind_st (st_eye_on cud) (\<lambda>eye_dst.
     bind_st (st_add dst_cov eye_dst) (\<lambda>dst_flat_cov_eye.
     bind_st (matSqrt_st svd dst_flat_cov_eye) (\<lambda>sqrt_dst.
     bind_st (matSqrt_st svd src_flat_cov_eye) (\<lambda>sqrt_src.
     bind_st (st_inverse sqrt_src) (\<lambda>inv_sqrt_src.
     bind_st (st_mul sqrt_dst inv_sqrt_src) (\<lambda>transform.
     bind_st (st_matmul transform src_norm) (\<lambda>src_flat_nrom_trans.
     bind_st (st_col_op mul_col src_flat_nrom_trans dst_std) (\<lambda>scaled.
     bind_st (st_col_op add_col scaled dst_mean) (\<lambda>src_flat_transfer.
     st_view_as src_flat_transfer src)))))))))))))))))))))))))"

text \<open>
  One store extends another when every cell of the first is still there, unchanged, and
  only cells beyond its allocation mark were added.
\<close>

definition extends :: "heap \<Rightarrow> heap \<Rightarrow> bool" where
  "extends h h' \<longleftrightarrow> next_free h \<le> next_free h' \<and> (\<forall>a < next_free h. cells h' a = cells h a)"

definition frames :: "'a st \<Rightarrow> bool" where
  "frames f \<longleftrightarrow> (\<forall>h. extends h (snd (f h)))"

definition fresh :: "tref st \<Rightarrow> bool" where
  "fresh f \<longleftrightarrow>
     (\<forall>h. extends h (snd (f h))
        \<and> (case fst (f h) of
             Inl e \<Rightarrow> True
           | Inr r \<Rightarrow> next_free h \<le> addr r \<and> addr r < next_free (snd (f h))))"


text \<open>A computation yields a stored tensor when the reference it returns has a storage cell.\<close>

definition stored :: "tref st \<Rightarrow> bool" where
  "stored f \<longleftrightarrow> (\<forall>h. case f h of (Inl e, h') \<Rightarrow> True | (Inr r, h') \<Rightarrow> cells h' (addr r) \<noteq> None)"

text \<open>In a well-formed store nothing is held at or beyond the allocation mark.\<close>

definition wf_heap :: "heap \<Rightarrow> bool" where
  "wf_heap h \<longleftrightarrow> (\<forall>a. next_free h \<le> a \<longrightarrow> cells h a = None)"

text \<open>A store that holds the two example images and nothing else.\<close>

definition heapAB :: heap where
  "heapAB = \<lparr>cells = (\<lambda>a. if a = 0 then Some (Flat (concat flatA)) else if a = 1 then Some (Flat (concat flatB)) else None),
             next_free = 2\<rparr>"

definition refA :: tref where
  "refA = \<lparr>addr = 0, transposed = False, tshape = shape imgA, tdevice = CPU\<rparr>"

definition refB :: tref where
  "refB = \<lparr>addr = 1, transposed = False, tshape = shape imgB, tdevice = CPU\<rparr>"
section \<open>Channel reordering\<close>

lemma upt_3: "[0..<3] = [0, Suc 0, 2]"
  by (simp add: upt_rec)

lemma transpose01_three:
  assumes "dim1 t = 3"
  shows "transpose01 t =
           \<lparr>dim0 = 3, dim1 = dim0 t,
            elems = [map (\<lambda>r. r ! 0) (elems t), map (\<lambda>r. r ! 1) (elems t),
                     map (\<lambda>r. r ! 2) (elems t)]\<rparr>"
  using assms by (simp add: transpose01_def upt_3)

lemma chunk_three:
  "chunk \<lparr>dim0 = 3, dim1 = n, elems = [a, b, c]\<rparr> 3 =
     Inr [\<lparr>dim0 = 1, dim1 = n, elems = [a]\<rparr>, \<lparr>dim0 = 1, dim1 = n, elems = [b]\<rparr>,
          \<lparr>dim0 = 1, dim1 = n, elems = [c]\<rparr>]"
  by (simp add: chunk_def Let_def upt_3)

lemma preprocess_batch_three:
  assumes "wf_batch t" and "dim1 t = 3"
  shows "preprocess_batch t = Inr (t\<lparr>elems := map (\<lambda>r. [r ! 2, r ! 1, r ! 0]) (elems t)\<rparr>)"
proof -
  have len: "length (elems t) = dim0 t"
    using assms(1) by (simp add: wf_batch_def)
  have cols: "map (\<lambda>j. [map (\<lambda>r. r ! 2) (elems t) ! j, map (\<lambda>r. r ! 1) (elems t) ! j,
                         map (\<lambda>r. r ! 0) (elems t) ! j]) [0..<dim0 t]
              = map (\<lambda>r. [r ! 2, r ! 1, r ! 0]) (elems t)"
    by (rule nth_equalityI) (simp_all add: len)
  show ?thesis
    unfolding preprocess_batch_def Let_def transpose01_three [OF assms(2)] chunk_three
    using assms(2) cols
    by (simp add: cat_def transpose01_def upt_3 len)
qed

lemma three_nth:
  assumes "length r = 3"
  shows "[r ! 0, r ! Suc 0, r ! 2] = r"
proof -
  obtain a b c where "r = [a, b, c]"
    using assms by (cases r; cases "tl r"; cases "tl (tl r)") auto
  then show ?thesis by simp
qed

text \<open>
  Claim C9. For every batch whose dimension 1 has exactly three channels,
  \<^verbatim>\<open>preprocess_batch\<close> returns, and applying it to its own result returns the batch
  it started from: swapping the first and the third channel twice restores the order.
\<close>

theorem preprocess_batch_involution:
  assumes "wf_batch t" and "dim1 t = 3"
  shows "\<exists>t'. preprocess_batch t = Inr t' \<and> preprocess_batch t' = Inr t"
proof -
  let ?u = "t\<lparr>elems := map (\<lambda>r. [r ! 2, r ! 1, r ! 0]) (elems t)\<rparr>"
  have rows: "\<forall>r \<in> set (elems t). length r = 3"
    using assms by (simp add: wf_batch_def list_all_iff)
  have wfu: "wf_batch ?u" and du: "dim1 ?u = 3"
    using assms by (simp_all add: wf_batch_def list_all_iff)
  have twice: "map (\<lambda>r. [r ! 2, r ! 1, r ! 0]) (elems ?u) = elems t"
  proof -
    have "map (\<lambda>x. [x ! 0, x ! Suc 0, x ! 2]) (elems t) = elems t"
      by (rule map_idI) (simp add: rows three_nth)
    then show ?thesis by (simp add: o_def)
  qed
  have "preprocess_batch ?u = Inr t"
    unfolding preprocess_batch_three [OF wfu du] using twice by simp
  then show ?thesis
    using preprocess_batch_three [OF assms] by blast
qed

theorem preprocess_batch_involution_witness:
  "wf_batch \<lparr>dim0 = 2, dim1 = 3, elems = [[''r0'', ''g0'', ''b0''], [''r1'', ''g1'', ''b1'']]\<rparr>
   \<and> preprocess_batch \<lparr>dim0 = 2, dim1 = 3, elems = [[''r0'', ''g0'', ''b0''], [''r1'', ''g1'', ''b1'']]\<rparr>
       = Inr \<lparr>dim0 = 2, dim1 = 3, elems = [[''b0'', ''g0'', ''r0''], [''b1'', ''g1'', ''r1'']]\<rparr>
   \<and> preprocess_batch \<lparr>dim0 = 2, dim1 = 3, elems = [[''b0'', ''g0'', ''r0''], [''b1'', ''g1'', ''r1'']]\<rparr>
       = Inr \<lparr>dim0 = 2, dim1 = 3, elems = [[''r0'', ''g0'', ''b0''], [''r1'', ''g1'', ''b1'']]\<rparr>"
proof -
  let ?t = "\<lparr>dim0 = 2, dim1 = 3, elems = [[''r0'', ''g0'', ''b0''], [''r1'', ''g1'', ''b1'']]\<rparr>"
  have wf: "wf_batch ?t" and d: "dim1 ?t = 3"
    by (simp_all add: wf_batch_def)
  have first: "preprocess_batch ?t
                 = Inr \<lparr>dim0 = 2, dim1 = 3, elems = [[''b0'', ''g0'', ''r0''], [''b1'', ''g1'', ''r1'']]\<rparr>"
    by (simp add: preprocess_batch_three [OF wf d])
  from preprocess_batch_involution [OF wf d] first wf show ?thesis
    by auto
qed

section \<open>The style loader wraps around\<close>

lemma get_idx_files:
  assumes "files self \<noteq> []"
  shows "get_idx self i = Inr (i mod size_loader self)"
  using assms by (simp add: get_idx_def size_loader_def)

lemma get_filepath_files:
  assumes "files self \<noteq> []"
  shows "get_filepath self i
           = Inr (path_join (folder self) (files self ! nat (i mod size_loader self)))"
proof -
  have "0 < size_loader self"
    using assms by (simp add: size_loader_def)
  then have "0 \<le> i mod size_loader self" and "i mod size_loader self < size_loader self"
    by simp_all
  then have "py_index (files self) (i mod size_loader self)
               = Inr (files self ! nat (i mod size_loader self))"
    by (simp add: py_index_def size_loader_def)
  then show ?thesis
    by (simp add: get_filepath_def get_idx_files [OF assms])
qed

text \<open>
  Claim C10. For a loader over a folder that is not empty and every integer \<open>i\<close> (so
  every non-negative one), \<^verbatim>\<open>get(i)\<close> computes the index \<open>i mod size()\<close>, which lies
  inside the list of files, and the one file it hands to the image reader is the file at
  that position of the list: \<^verbatim>\<open>get(i)\<close> is what loading that path gives, for every
  reader, with or without an accelerator. So \<^verbatim>\<open>get(i + size())\<close> is the same call on
  the same file as \<^verbatim>\<open>get(i)\<close>.
\<close>

theorem StyleLoader_get_wraps:
  assumes "files self \<noteq> []"
  shows "get_idx self i = Inr (i mod size_loader self)
       \<and> 0 \<le> i mod size_loader self \<and> i mod size_loader self < size_loader self
       \<and> get_filepath self i
           = Inr (path_join (folder self) (files self ! nat (i mod size_loader self)))
       \<and> get tensor_load_rgbimage cuda_available self i
           = load_style tensor_load_rgbimage cuda_available self
               (path_join (folder self) (files self ! nat (i mod size_loader self)))
       \<and> get_filepath self (i + size_loader self) = get_filepath self i
       \<and> get tensor_load_rgbimage cuda_available self (i + size_loader self)
           = get tensor_load_rgbimage cuda_available self i"
proof -
  have pos: "0 < size_loader self"
    using assms by (simp add: size_loader_def)
  have same: "get_filepath self (i + size_loader self) = get_filepath self i"
    by (simp add: get_filepath_files [OF assms])
  have reads: "get tensor_load_rgbimage cuda_available self j
           = load_style tensor_load_rgbimage cuda_available self
               (path_join (folder self) (files self ! nat (j mod size_loader self)))" for j
    unfolding get_def load_style_def get_filepath_files [OF assms] by simp
  have "get tensor_load_rgbimage cuda_available self (i + size_loader self)
           = get tensor_load_rgbimage cuda_available self i"
    unfolding reads by simp
  with pos same reads [of i] show ?thesis
    by (simp add: get_idx_files [OF assms] get_filepath_files [OF assms])
qed

theorem StyleLoader_get_wraps_witness:
  "files (StyleLoader_init (\<lambda>d. [''a.jpg'', ''b.jpg'', ''c.jpg'']) ''styles'' 512 False) \<noteq> []
   \<and> get_idx (StyleLoader_init (\<lambda>d. [''a.jpg'', ''b.jpg'', ''c.jpg'']) ''styles'' 512 False) 7
       = Inr 1
   \<and> get_filepath (StyleLoader_init (\<lambda>d. [''a.jpg'', ''b.jpg'', ''c.jpg'']) ''styles'' 512 False) 7
       = Inr ''styles/b.jpg''
   \<and> get (only_file ''styles/b.jpg'' 512 [''r'', ''g'', ''b'']) False
         (StyleLoader_init (\<lambda>d. [''a.jpg'', ''b.jpg'', ''c.jpg'']) ''styles'' 512 False) 7
       = Inr (False, \<lparr>dim0 = 1, dim1 = 3, elems = [[''b'', ''g'', ''r'']]\<rparr>)
   \<and> get (only_file ''styles/b.jpg'' 512 [''r'', ''g'', ''b'']) False
         (StyleLoader_init (\<lambda>d. [''a.jpg'', ''b.jpg'', ''c.jpg'']) ''styles'' 512 False) (7 + 3)
       = Inr (False, \<lparr>dim0 = 1, dim1 = 3, elems = [[''b'', ''g'', ''r'']]\<rparr>)
   \<and> get (only_file ''styles/a.jpg'' 512 [''r'', ''g'', ''b'']) False
         (StyleLoader_init (\<lambda>d. [''a.jpg'', ''b.jpg'', ''c.jpg'']) ''styles'' 512 False) 7
       = Inl LoadError"
proof -
  let ?self = "StyleLoader_init (\<lambda>d. [''a.jpg'', ''b.jpg'', ''c.jpg'']) ''styles'' 512 False"
  have ne: "files ?self \<noteq> []"
    by (simp add: StyleLoader_init_def)
  have sz: "size_loader ?self = 3"
    by (simp add: size_loader_def StyleLoader_init_def)
  have nth: "files ?self ! nat 1 = ''b.jpg''"
    by (simp add: StyleLoader_init_def)
  have fol: "folder ?self = ''styles''" and st: "style_size ?self = 512" and cu: "\<not> cuda ?self"
    by (simp_all add: StyleLoader_init_def)
  have pj: "path_join ''styles'' ''b.jpg'' = ''styles/b.jpg''"
    by (simp add: path_join_def)
  have wf: "wf_batch (unsqueeze0 [''r'', ''g'', ''b''])" and d: "dim1 (unsqueeze0 [''r'', ''g'', ''b'']) = 3"
    by (simp_all add: wf_batch_def unsqueeze0_def)
  have pre: "preprocess_batch (unsqueeze0 [''r'', ''g'', ''b''])
               = Inr \<lparr>dim0 = 1, dim1 = 3, elems = [[''b'', ''g'', ''r'']]\<rparr>"
    unfolding preprocess_batch_three [OF wf d] by (simp add: unsqueeze0_def)
  have b: "load_style (only_file ''styles/b.jpg'' 512 [''r'', ''g'', ''b'']) False ?self ''styles/b.jpg''
             = Inr (False, \<lparr>dim0 = 1, dim1 = 3, elems = [[''b'', ''g'', ''r'']]\<rparr>)"
    by (simp add: load_style_def only_file_def st cu pre)
  have a: "load_style (only_file ''styles/a.jpg'' 512 [''r'', ''g'', ''b'']) False ?self ''styles/b.jpg''
             = Inl LoadError"
    by (simp add: load_style_def only_file_def st)
  let ?b = "only_file ''styles/b.jpg'' 512 [''r'', ''g'', ''b'']"
  let ?a = "only_file ''styles/a.jpg'' 512 [''r'', ''g'', ''b'']"
  have idx: "(7::int) mod 3 = 1"
    by simp
  note at_b = StyleLoader_get_wraps [OF ne, of 7 ?b False, unfolded sz nth fol pj b idx]
  note at_a = StyleLoader_get_wraps [OF ne, of 7 ?a False, unfolded sz nth fol pj a idx]
  from at_b have 1: "get_idx ?self 7 = Inr 1"
    by (elim conjE) assumption
  from at_b have 2: "get_filepath ?self 7 = Inr ''styles/b.jpg''"
    by (elim conjE) assumption
  from at_b have 3: "get ?b False ?self 7 = Inr (False, \<lparr>dim0 = 1, dim1 = 3, elems = [[''b'', ''g'', ''r'']]\<rparr>)"
    by (elim conjE) assumption
  from at_b have "get ?b False ?self (7 + 3) = get ?b False ?self 7"
    by (elim conjE) assumption
  then have 4: "get ?b False ?self (7 + 3) = Inr (False, \<lparr>dim0 = 1, dim1 = 3, elems = [[''b'', ''g'', ''r'']]\<rparr>)"
    unfolding 3 .
  from at_a have 5: "get ?a False ?self 7 = Inl LoadError"
    by (elim conjE) assumption
  show ?thesis
    by (intro conjI ne 1 2 3 4 5)
qed
section \<open>The matrix square root\<close>

lemma zn_mul_zero: "zero_or_nan (fmul a (Fin 0))"
  by (cases a) (simp_all add: zero_or_nan_def)

lemma zn_mul_left: "zero_or_nan a \<Longrightarrow> zero_or_nan (fmul a b)"
  by (cases b) (auto simp: zero_or_nan_def)

lemma zn_mul_right: "zero_or_nan a \<Longrightarrow> zero_or_nan (fmul b a)"
  by (cases b) (auto simp: zero_or_nan_def)

lemma zn_add: "zero_or_nan a \<Longrightarrow> zero_or_nan b \<Longrightarrow> zero_or_nan (fadd a b)"
  by (auto simp: zero_or_nan_def)

lemma fadd_zero_right: "fadd a (Fin 0) = a"
  by (cases a) simp_all

lemma length3D:
  assumes "length xs = 3"
  shows "\<exists>a b c. xs = [a, b, c]"
  using assms by (cases xs; cases "tl xs"; cases "tl (tl xs)") auto

lemma is_3x3D:
  assumes "is_3x3 m"
  shows "\<exists>a b c d e f g h i. m = [[a, b, c], [d, e, f], [g, h, i]]"
proof -
  from assms obtain r0 r1 r2 where m: "m = [r0, r1, r2]"
    unfolding is_3x3_def using length3D by blast
  from assms m have "length r0 = 3" "length r1 = 3" "length r2 = 3"
    by (simp_all add: is_3x3_def)
  then obtain a b c d e f g h i where "r0 = [a, b, c]" "r1 = [d, e, f]" "r2 = [g, h, i]"
    using length3D by metis
  with m show ?thesis by blast
qed

lemma transpose_3x3: "transpose [[a, b, c], [d, e, f], [g, h, i]] = [[a, d, g], [b, e, h], [c, f, i]]"
  by (simp add: transpose.simps)

lemma diag3: "diag [a, b, c] = [[a, Fin 0, Fin 0], [Fin 0, b, Fin 0], [Fin 0, Fin 0, c]]"
  by (simp add: diag_def upt_3)

lemma off_diag_zn_3x3 [simp]:
  "off_diag_zn [[a, b, c], [d, e, f], [g, h, i]] \<longleftrightarrow>
     zero_or_nan b \<and> zero_or_nan c \<and> zero_or_nan d \<and> zero_or_nan f \<and> zero_or_nan g \<and> zero_or_nan h"
  by (simp add: off_diag_zn_def)

lemma off_diag_znD:
  assumes "off_diag_zn m"
  shows "\<exists>a b c d e f g h i. m = [[a, b, c], [d, e, f], [g, h, i]]
           \<and> zero_or_nan b \<and> zero_or_nan c \<and> zero_or_nan d \<and> zero_or_nan f \<and> zero_or_nan g
           \<and> zero_or_nan h"
  using assms unfolding off_diag_zn_def
  by (auto split: list.splits)

lemma matSqrt_3x3:
  assumes "svd x = Some ([[u00, u01, u02], [u10, u11, u12], [u20, u21, u22]], [d0, d1, d2],
                         [[v00, v01, v02], [v10, v11, v12], [v20, v21, v22]])"
  shows "matSqrt svd x =
           Inr [[fmul (fmul u00 (fpow_half d0)) v00, fmul (fmul u01 (Fin 0)) v10, fmul (fmul u02 (Fin 0)) v20],
                [fmul (fmul u10 (Fin 0)) v01, fmul (fmul u11 (fpow_half d1)) v11, fmul (fmul u12 (Fin 0)) v21],
                [fmul (fmul u20 (Fin 0)) v02, fmul (fmul u21 (Fin 0)) v12, fmul (fmul u22 (fpow_half d2)) v22]]"
  using assms by (simp add: matSqrt_def mul_elem_def mat_t_def diag3 transpose_3x3)

lemma matSqrt_off_diag:
  assumes "svd_shaped svd x"
  shows "\<exists>R. matSqrt svd x = Inr R \<and> off_diag_zn R"
proof -
  from assms obtain U D V where s: "svd x = Some (U, D, V)" and "is_3x3 U" "length D = 3" "is_3x3 V"
    by (auto simp: svd_shaped_def split: option.splits)
  then obtain u00 u01 u02 u10 u11 u12 u20 u21 u22 d0 d1 d2 v00 v01 v02 v10 v11 v12 v20 v21 v22
    where "U = [[u00, u01, u02], [u10, u11, u12], [u20, u21, u22]]" "D = [d0, d1, d2]"
          "V = [[v00, v01, v02], [v10, v11, v12], [v20, v21, v22]]"
    using is_3x3D length3D by metis
  with s show ?thesis
    by (simp add: matSqrt_3x3 zn_mul_zero zn_mul_left)
qed

lemma matmul_3x3:
  "matmul [[a, b, c], [d, e, f], [g, h, i]] [[a', b', c'], [d', e', f'], [g', h', i']] =
     [[dot [a, b, c] [a', d', g'], dot [a, b, c] [b', e', h'], dot [a, b, c] [c', f', i']],
      [dot [d, e, f] [a', d', g'], dot [d, e, f] [b', e', h'], dot [d, e, f] [c', f', i']],
      [dot [g, h, i] [a', d', g'], dot [g, h, i] [b', e', h'], dot [g, h, i] [c', f', i']]]"
  by (simp add: matmul_def transpose_3x3)

lemma dot3: "dot [a, b, c] [x, y, z] = fadd (fmul a x) (fadd (fmul b y) (fmul c z))"
  by (simp add: dot_def fsum_def fadd_zero_right)

lemma matmul_off_diag:
  assumes "off_diag_zn m"
  shows "off_diag_zn (matmul m m)"
proof -
  from off_diag_znD [OF assms] obtain a b c d e f g h i where
    m: "m = [[a, b, c], [d, e, f], [g, h, i]]" and
    z: "zero_or_nan b" "zero_or_nan c" "zero_or_nan d" "zero_or_nan f" "zero_or_nan g" "zero_or_nan h"
    by blast
  show ?thesis
    unfolding m matmul_3x3 dot3 off_diag_zn_3x3
    using z by (intro conjI zn_add) (simp_all add: zn_mul_left zn_mul_right)
qed

lemma not_close_zn:
  assumes "zero_or_nan a" and "tol < 1" and "y \<noteq> 0"
  shows "\<not> close_to tol a (Fin y)"
proof -
  have "\<not> \<bar>y\<bar> \<le> tol * \<bar>y\<bar>"
    using assms(2,3) by (simp add: mult_le_cancel_right1)
  then show ?thesis
    using assms(1) by (auto simp: zero_or_nan_def close_to_def)
qed

lemma sqrt_81: "sqrt 81 = 9" by (rule real_sqrt_unique) simp_all

lemma sqrt_36: "sqrt 36 = 6" by (rule real_sqrt_unique) simp_all

lemma sqrt_9: "sqrt 9 = 3" by (rule real_sqrt_unique) simp_all

lemma eye3: "eye 3 = [[Fin 1, Fin 0, Fin 0], [Fin 0, Fin 1, Fin 0], [Fin 0, Fin 0, Fin 1]]"
  by (simp add: eye_def diag_def upt_3 numeral_3_eq_3)

lemma svd_table_spd: "svd_table spd_example = Some (U_example, [Fin 81, Fin 36, Fin 9], U_example)"
  by (simp add: svd_table_def)

lemma is_svd_spd: "is_svd spd_example (U_example, [Fin 81, Fin 36, Fin 9], U_example)"
  by (simp add: is_svd_def is_3x3_def U_example_def spd_example_def fin_mat_def descending_def
      mat_t_def transpose_3x3 matmul_3x3 dot3 diag3 eye3)

lemma root_example_squared: "matmul root_example root_example = spd_example"
  by (simp add: root_example_def spd_example_def fin_mat_def matmul_3x3 dot3)

lemma matSqrt_spd:
  "matSqrt svd_table spd_example = Inr (fin_mat [[1, 0, 0], [0, 2/3, 0], [0, 0, 1/3]])"
  by (simp add: matSqrt_def svd_table_spd U_example_def fin_mat_def mul_elem_def mat_t_def diag3
      transpose_3x3 sqrt_81 sqrt_36 sqrt_9)

lemma sqrt2_sandwich: "sqrt 2 * x * sqrt 2 = 2 * x"
proof -
  have "sqrt 2 * x * sqrt 2 = x * (sqrt 2 * sqrt 2)"
    by (simp add: ac_simps)
  then show ?thesis by simp
qed

lemma is_svd_corr: "is_svd cov_corr (U_corr, [Fin 9, Fin 5, Fin 1], U_corr)"
  by (simp add: is_svd_def is_3x3_def U_corr_def cov_corr_def fin_mat_def descending_def
      mat_t_def transpose_3x3 matmul_3x3 dot3 diag3 eye3 sqrt2_sandwich)

section \<open>The colour transfer on the example images\<close>

lemma view3_imgA: "view3 imgA = Inr flatA"
  by (simp add: view3_def imgA_def flatA_def fin_mat_def upt_3)

lemma view3_imgB: "view3 imgB = Inr flatB"
  by (simp add: view3_def imgB_def flatB_def fin_mat_def upt_3)

lemma mean1_A: "mean1 flatA = [Fin 3, Fin 1, Fin 4]"
  by (simp add: flatA_def fin_mat_def mean1_def mean_row_def fsum_def)

lemma std1_A: "std1 flatA = [Fin 2, Fin 1, Fin 2]"
  by (simp add: flatA_def fin_mat_def std1_def std_row_def mean_row_def fsum_def fsub_def)

lemma mean1_B: "mean1 flatB = [Fin 1, Fin 5, Fin 1]"
  by (simp add: flatB_def fin_mat_def mean1_def mean_row_def fsum_def)

lemma std1_B: "std1 flatB = [Fin 1, Fin 2, Fin 1]"
  by (simp add: flatB_def fin_mat_def std1_def std_row_def mean_row_def fsum_def fsub_def)

lemma normalized_A: "normalized flatA = normA"
  unfolding normalized_def mean1_A std1_A
  by (simp add: flatA_def normA_def fin_mat_def div_col_def sub_col_def fsub_def)

lemma normalized_B: "normalized flatB = normB"
  unfolding normalized_def mean1_B std1_B
  by (simp add: flatB_def normB_def fin_mat_def div_col_def sub_col_def fsub_def)

lemma cov_eye_A: "cov_eye normA = cov9"
  by (simp add: normA_def cov_eye_def mat_t_def matmul_def dot_def fsum_def add_elem_def eye3 cov9_def fin_mat_def)

lemma cov_eye_B: "cov_eye normB = cov_corr"
  by (simp add: normB_def cov_eye_def mat_t_def matmul_def dot_def fsum_def add_elem_def eye3 cov_corr_def fin_mat_def)

lemma color_match_unfold:
  "color_match svd cuda_available src dst use_cuda =
     (case view3 src of Inl e \<Rightarrow> Inl e | Inr sf \<Rightarrow>
      case view3 dst of Inl e \<Rightarrow> Inl e | Inr df \<Rightarrow>
        if device src = (if use_cuda \<and> cuda_available then CUDA else CPU)
           \<and> device dst = (if use_cuda \<and> cuda_available then CUDA else CPU)
        then
          case matSqrt svd (cov_eye (normalized df)) of Inl e \<Rightarrow> Inl e | Inr sd \<Rightarrow>
          case matSqrt svd (cov_eye (normalized sf)) of Inl e \<Rightarrow> Inl e | Inr ss \<Rightarrow>
          case inverse_mat ss of Inl e \<Rightarrow> Inl e | Inr si \<Rightarrow>
            view_as (add_col (mul_col (matmul (mul_elem sd si) (normalized sf)) (std1 df)) (mean1 df)) src
        else Inl DeviceMismatch)"
  by (simp add: color_match_def Let_def normalized_def cov_eye_def split: sum.splits)

lemma cov_distinct:
  "cov9 \<noteq> spd_example" "cov_corr \<noteq> spd_example" "cov_corr \<noteq> cov9"
  "cov5 \<noteq> spd_example" "cov5 \<noteq> cov9" "cov5 \<noteq> cov_corr"
  by (simp_all add: cov9_def cov_corr_def cov5_def spd_example_def fin_mat_def)

lemma matSqrt_cov9: "matSqrt svd_table cov9 = Inr (fin_mat [[3, 0, 0], [0, 3, 0], [0, 0, 3]])"
  by (simp add: matSqrt_def svd_table_def cov_distinct eye3 mul_elem_def mat_t_def diag3 transpose_3x3
      sqrt_9 fin_mat_def)

lemma matSqrt_cov_corr: "matSqrt svd_table cov_corr = Inr (fin_mat [[3/2, 0, 0], [0, 0, 0], [0, 0, 0]])"
  by (simp add: matSqrt_def svd_table_def cov_distinct U_corr_def mul_elem_def mat_t_def diag3
      transpose_3x3 sqrt_9 fin_mat_def sqrt2_sandwich)

lemma inverse_3I:
  "inverse_mat (fin_mat [[3, 0, 0], [0, 3, 0], [0, 0, 3]]) = Inr (fin_mat [[1/3, 0, 0], [0, 1/3, 0], [0, 0, 1/3]])"
  by (simp add: inverse_mat_def is_3x3_def det3_def adjugate3_def fin_mat_def fsub_def)

lemma inverse_singular:
  "inverse_mat (fin_mat [[3/2, 0, 0], [0, 0, 0], [0, 0, 0]]) = Inl SingularMatrix"
  by (simp add: inverse_mat_def is_3x3_def det3_def fin_mat_def fsub_def)

lemmas example_steps =
  view3_imgA view3_imgB normalized_A normalized_B cov_eye_A cov_eye_B matSqrt_cov9 matSqrt_cov_corr
  inverse_3I inverse_singular mean1_A std1_A mean1_B std1_B

lemma device_examples: "device imgA = CPU" "device imgB = CPU"
  by (simp_all add: imgA_def imgB_def)

lemma color_match_A_B: "color_match svd_table av imgA imgB False = Inr outAB"
  apply (simp only: color_match_unfold example_steps device_examples sum.case)
  apply (simp add: imgA_def outAB_def normA_def flatA_def fin_mat_def mul_elem_def matmul_def
      dot_def fsum_def mul_col_def add_col_def view_as_def)
  done

lemma color_match_B_B: "color_match svd_table av imgB imgB False = Inl SingularMatrix"
  apply (simp only: color_match_unfold example_steps device_examples sum.case)
  apply simp
  done

lemma color_match_A_A: "color_match svd_table av imgA imgA False = Inr imgA"
  apply (simp only: color_match_unfold example_steps device_examples sum.case)
  apply (simp add: imgA_def normA_def flatA_def fin_mat_def mul_elem_def matmul_def dot_def fsum_def
      mul_col_def add_col_def view_as_def)
  done


lemma is_svd_cov9: "is_svd cov9 (eye 3, [Fin 9, Fin 9, Fin 9], eye 3)"
  by (simp add: is_svd_def is_3x3_def cov9_def fin_mat_def descending_def
      mat_t_def transpose_3x3 matmul_3x3 dot3 diag3 eye3)

lemma svd_table_cov9: "svd_table cov9 = Some (eye 3, [Fin 9, Fin 9, Fin 9], eye 3)"
  by (simp add: svd_table_def cov_distinct)

lemma svd_table_cov_corr: "svd_table cov_corr = Some (U_corr, [Fin 9, Fin 5, Fin 1], U_corr)"
  by (simp add: svd_table_def cov_distinct)

lemma svd_shaped_table:
  "svd_shaped svd_table spd_example" "svd_shaped svd_table cov9" "svd_shaped svd_table cov_corr"
  by (simp_all add: svd_shaped_def svd_table_spd svd_table_cov9 svd_table_cov_corr is_3x3_def
      U_example_def U_corr_def fin_mat_def eye3)

section \<open>The transform of the specification on the example images\<close>

lemma root_table_squares:
  "matmul (root_table cov9) (root_table cov9) = cov9"
  "matmul (root_table cov_corr) (root_table cov_corr) = cov_corr"
  "matmul (root_table spd_example) (root_table spd_example) = spd_example"
  "matmul (root_table cov5) (root_table cov5) = cov5"
  by (simp_all add: root_table_def cov_distinct cov_distinct [symmetric] root_corr_def cov9_def
      cov_corr_def cov5_def fin_mat_def matmul_3x3 dot3 root_example_squared)

lemma color_match_spec_A_B: "color_match_spec root_table imgA imgB = Inr specAB"
  apply (simp only: color_match_spec_def Let_def example_steps sum.case)
  apply (simp only: root_table_def cov_distinct if_True if_False refl inverse_3I sum.case root_corr_def)
  apply (simp add: imgA_def specAB_def normA_def flatA_def fin_mat_def matmul_def
      dot_def fsum_def mul_col_def add_col_def view_as_def)
  done

lemma inverse_mat_3x3:
  assumes "inverse_mat m = Inr si"
  shows "is_3x3 si"
proof -
  from assms have "is_3x3 m" and si: "si = map (map (\<lambda>x. fdiv x (det3 m))) (adjugate3 m)"
    by (auto simp: inverse_mat_def split: if_splits)
  from is_3x3D [OF this(1)] obtain a b c d e f g h i where "m = [[a, b, c], [d, e, f], [g, h, i]]"
    by blast
  then show ?thesis
    unfolding si by (simp add: adjugate3_def is_3x3_def)
qed

lemma mul_elem_off_diag:
  assumes "off_diag_zn a" and "is_3x3 b"
  shows "off_diag_zn (mul_elem a b)"
proof -
  from off_diag_znD [OF assms(1)] is_3x3D [OF assms(2)] show ?thesis
    by (auto simp: mul_elem_def zn_mul_left)
qed

lemma dot_zn:
  assumes "zero_or_nan t1" and "zero_or_nan t2"
  shows "dot [t0, t1, t2] [a, Fin b, Fin c] = dot [t0, t1, t2] [a, Fin b', Fin c']"
  using assms by (auto simp: dot3 zero_or_nan_def)

lemma data_concat_3: "concat [r0, r1, r2] = r0 @ r1 @ r2"
  by simp

section \<open>Finite inputs: the computation on real numbers\<close>
























section \<open>Images of different sizes\<close>







lemma is_svd_cov5: "is_svd cov5 (eye 3, [Fin 5, Fin 5, Fin 5], eye 3)"
  by (simp add: is_svd_def is_3x3_def cov5_def fin_mat_def descending_def
      mat_t_def transpose_3x3 matmul_3x3 dot3 diag3 eye3)




















section \<open>Images of one size with correlated channels\<close>



























section \<open>Means of a result that is only close to the exact one\<close>







lemma mean1_cut_outAC: "mean1 cut_outAC = [Fin (8996 / 9000), Fin (17996 / 9000), Fin (8996 / 9000)]"
  by (simp add: cut_outAC_def fin_mat_def mean1_def mean_row_def fsum_def)


section \<open>The claims about the matrix square root and the colour transfer\<close>

text \<open>
  Claim C1 (the code misses it). \<^verbatim>\<open>matSqrt\<close> multiplies \<open>U\<close>, \<open>diag(sqrt(D))\<close> and
  \<open>V\<^sup>T\<close> element by element, so whatever factors the decomposition returns, every
  element of the result off the diagonal is zero (or not a number), and so is every such
  element of the result times itself. On the symmetric positive-definite matrix
  \<open>spd_example\<close>, whose element in row 0 and column 1 is 22, the product of the result
  with itself is therefore not that matrix, within no tolerance below 1.
\<close>

theorem matSqrt_not_a_square_root:
  assumes "svd_shaped svd spd_example"
  shows "\<exists>R. matSqrt svd spd_example = Inr R \<and> off_diag_zn R
           \<and> \<not> close_to (1 / 10000) (matmul R R ! 0 ! 1) (spd_example ! 0 ! 1)"
proof -
  from matSqrt_off_diag [OF assms] obtain R where R: "matSqrt svd spd_example = Inr R" "off_diag_zn R"
    by blast
  from off_diag_znD [OF matmul_off_diag [OF R(2)]] have "zero_or_nan (matmul R R ! 0 ! 1)"
    by auto
  then have "\<not> close_to (1 / 10000) (matmul R R ! 0 ! 1) (Fin 22)"
    by (rule not_close_zn) simp_all
  with R show ?thesis
    by (simp add: spd_example_def fin_mat_def)
qed

theorem matSqrt_not_a_square_root_witness:
  "svd_shaped svd_table spd_example
   \<and> svd_table spd_example = Some (U_example, [Fin 81, Fin 36, Fin 9], U_example)
   \<and> is_svd spd_example (U_example, [Fin 81, Fin 36, Fin 9], U_example)
   \<and> matmul root_example root_example = spd_example
   \<and> matSqrt svd_table spd_example = Inr (fin_mat [[1, 0, 0], [0, 2/3, 0], [0, 0, 1/3]])
   \<and> matmul (fin_mat [[1, 0, 0], [0, 2/3, 0], [0, 0, 1/3]]) (fin_mat [[1, 0, 0], [0, 2/3, 0], [0, 0, 1/3]])
       = fin_mat [[1, 0, 0], [0, 4/9, 0], [0, 0, 1/9]]
   \<and> \<not> close_to (1 / 10000)
         (matmul (fin_mat [[1, 0, 0], [0, 2/3, 0], [0, 0, 1/3]]) (fin_mat [[1, 0, 0], [0, 2/3, 0], [0, 0, 1/3]]) ! 0 ! 1)
         (spd_example ! 0 ! 1)"
proof -
  have sq: "matmul (fin_mat [[1, 0, 0], [0, 2/3, 0], [0, 0, 1/3]]) (fin_mat [[1, 0, 0], [0, 2/3, 0], [0, 0, 1/3]])
              = fin_mat [[1, 0, 0], [0, 4/9, 0], [0, 0, 1/9]]"
    by (simp add: fin_mat_def matmul_3x3 dot3)
  from matSqrt_not_a_square_root [OF svd_shaped_table(1)] show ?thesis
    unfolding matSqrt_spd
    using svd_shaped_table(1) svd_table_spd is_svd_spd root_example_squared sq by auto
qed

text \<open>
  Claim C3 (the code misses it). The image \<open>imgB\<close> has three channels, none of them
  constant; its first two channels vary together and the third is uncorrelated with both.
  Its covariance-plus-identity matrix is \<open>cov_corr\<close>, with the singular values 9, 5 and 1
  and the factors \<open>U_corr\<close>. The element-wise product of \<^verbatim>\<open>matSqrt\<close> keeps only the
  diagonal of \<open>U_corr\<close>, which has two zeros: the result is singular, \<^verbatim>\<open>inverse\<close>
  raises, and \<^verbatim>\<open>color_match(imgB, imgB)\<close> does not return \<open>imgB\<close>.
\<close>

theorem color_match_self_raises:
  "svd_table cov_corr = Some (U_corr, [Fin 9, Fin 5, Fin 1], U_corr)
   \<and> is_svd cov_corr (U_corr, [Fin 9, Fin 5, Fin 1], U_corr)
   \<and> view3 imgB = Inr flatB
   \<and> std1 flatB = [Fin 1, Fin 2, Fin 1]
   \<and> cov_eye (normalized flatB) = cov_corr
   \<and> matSqrt svd_table cov_corr = Inr (fin_mat [[3/2, 0, 0], [0, 0, 0], [0, 0, 0]])
   \<and> color_match svd_table False imgB imgB False = Inl SingularMatrix"
  using svd_table_cov_corr is_svd_corr view3_imgB std1_B cov_eye_B matSqrt_cov_corr
    color_match_B_B [of False]
  by (simp add: normalized_B)

text \<open>
  Claim C4. Whenever \<^verbatim>\<open>color_match(src, dst)\<close> returns, the tensor it returns has the
  shape of \<open>src\<close>, and as many elements as that shape holds; the shape of \<open>dst\<close> plays
  no part.
\<close>

theorem color_match_shape:
  assumes "color_match svd cuda_available src dst use_cuda = Inr out"
  shows "shape out = shape src \<and> length (data out) = prod_list (shape src)"
  using assms unfolding color_match_unfold view_as_def
  by (auto split: sum.splits if_splits)

theorem color_match_shape_witness:
  "color_match svd_table False imgA imgB False = Inr outAB
   \<and> shape imgA = [3, 3, 3] \<and> shape imgB = [3, 1, 5]
   \<and> shape outAB = shape imgA \<and> length (data outAB) = prod_list (shape imgA)"
  using color_match_shape [OF color_match_A_B [of False]] color_match_A_B [of False]
  by (simp add: imgA_def imgB_def)

text \<open>
  Claim C6. When no accelerator is detected, \<^verbatim>\<open>color_match\<close> with \<^verbatim>\<open>cuda=True\<close> and
  with \<^verbatim>\<open>cuda=False\<close> are the same computation: the same result, or the same failure.
\<close>

theorem color_match_cuda_without_accelerator:
  "color_match svd False src dst True = color_match svd False src dst False"
proof -
  have "(True \<and> False) = (False \<and> False)"
    by simp
  then show ?thesis
    unfolding color_match_def by (rule arg_cong)
qed

theorem color_match_cuda_without_accelerator_witness:
  "color_match svd_table False imgA imgB True = Inr outAB
   \<and> color_match svd_table False imgA imgB False = Inr outAB"
  using color_match_cuda_without_accelerator [of svd_table imgA imgB] color_match_A_B [of False]
  by simp

text \<open>
  Claim C2 (the code misses it). With the matrix square roots of section 4.1 and the
  matrix products the claim names, the transform of \<open>imgA\<close> towards \<open>imgB\<close> mixes the
  channels: \<open>color_match_spec\<close> sends the pixels 0 and 2 of \<open>imgA\<close>, equal in channel 0
  and different in channel 1, to different values of channel 0. The code multiplies
  element by element, in \<^verbatim>\<open>matSqrt\<close> and again between the two roots in line 161, so its
  transform is diagonal and cannot do that: whatever the decomposition returns, the
  result of \<^verbatim>\<open>color_match\<close> is not the result of the specified computation.
\<close>

theorem color_match_not_matrix_product:
  assumes "svd_shaped svd cov_corr" and "svd_shaped svd cov9"
  shows "color_match svd cuda_available imgA imgB use_cuda \<noteq> color_match_spec root_table imgA imgB"
proof (cases "color_match svd cuda_available imgA imgB use_cuda")
  case (Inl e)
  then show ?thesis by (simp add: color_match_spec_A_B)
next
  case (Inr out)
  from matSqrt_off_diag [OF assms(1)] obtain sd where sd: "matSqrt svd cov_corr = Inr sd" "off_diag_zn sd"
    by blast
  from matSqrt_off_diag [OF assms(2)] obtain ss where ss: "matSqrt svd cov9 = Inr ss"
    by blast
  from Inr have "\<exists>si. inverse_mat ss = Inr si
      \<and> view_as (add_col (mul_col (matmul (mul_elem sd si) normA) (std1 flatB)) (mean1 flatB)) imgA = Inr out"
    by (simp only: color_match_unfold example_steps sum.case sd ss) (auto split: if_splits sum.splits)
  then obtain si where si: "inverse_mat ss = Inr si"
    and out: "view_as (add_col (mul_col (matmul (mul_elem sd si) normA) (std1 flatB)) (mean1 flatB)) imgA = Inr out"
    by blast
  from mul_elem_off_diag [OF sd(2) inverse_mat_3x3 [OF si]] have "off_diag_zn (mul_elem sd si)" .
  from off_diag_znD [OF this] obtain a b c d e f g h i where
    T: "mul_elem sd si = [[a, b, c], [d, e, f], [g, h, i]]" and z: "zero_or_nan b" "zero_or_nan c"
    by blast
  have same: "dot [a, b, c] [Fin 1, Fin 1, Fin 1] = dot [a, b, c] [Fin 1, Fin (- 1), Fin 1]"
    by (rule dot_zn [OF z])
  from out have "data out ! 0 = data out ! 2"
    unfolding T mean1_B std1_B
    by (auto simp add: view_as_def normA_def fin_mat_def matmul_def mul_col_def add_col_def same
        split: if_splits)
  moreover have "data specAB ! 0 \<noteq> data specAB ! 2"
    by (simp add: specAB_def)
  ultimately show ?thesis
    using Inr by (auto simp: color_match_spec_A_B)
qed

theorem color_match_not_matrix_product_witness:
  "svd_shaped svd_table cov_corr \<and> svd_shaped svd_table cov9
   \<and> cov_eye (normalized flatA) = cov9 \<and> cov_eye (normalized flatB) = cov_corr
   \<and> matmul (root_table cov9) (root_table cov9) = cov9
   \<and> matmul (root_table cov_corr) (root_table cov_corr) = cov_corr
   \<and> color_match svd_table False imgA imgB False = Inr outAB
   \<and> color_match_spec root_table imgA imgB = Inr specAB
   \<and> outAB \<noteq> specAB"
  using color_match_not_matrix_product [OF svd_shaped_table(3) svd_shaped_table(2), of False False]
    svd_shaped_table root_table_squares color_match_A_B [of False] color_match_spec_A_B
  by (simp add: normalized_A normalized_B cov_eye_A cov_eye_B)



section \<open>A constant channel: not-a-number spreads\<close>

lemma fmul_NaN [simp]: "fmul a NaN = NaN"
  by (cases a) simp_all

lemma fadd_NaN [simp]: "fadd a NaN = NaN"
  by (cases a) simp_all




lemma length_normalize_row [simp]: "length (normalize_row r) = length r"
  by (simp add: normalize_row_def)
























section \<open>The claims about degenerate inputs and about side effects\<close>



section \<open>Nothing is written outside fresh storage\<close>

lemma extends_refl: "extends h h"
  by (simp add: extends_def)

lemma extends_trans:
  assumes "extends h h'" and "extends h' h''"
  shows "extends h h''"
  using assms by (auto simp: extends_def)

lemma frames_return: "frames (return_st x)"
  by (simp add: frames_def return_st_def extends_refl)

lemma frames_raise: "frames (raise_st e)"
  by (simp add: frames_def raise_st_def extends_refl)

lemma frames_get_mat: "frames (get_mat r)"
  by (auto simp: frames_def get_mat_def extends_refl Let_def split: option.splits cell.splits list.splits)

lemma frames_get_vec: "frames (get_vec r)"
  by (auto simp: frames_def get_vec_def extends_refl split: option.splits cell.splits)

lemma frames_bind:
  assumes "frames f" and "\<And>x. frames (g x)"
  shows "frames (bind_st f g)"
proof -
  have "extends h (snd (bind_st f g h))" for h
  proof (cases "f h")
    case (Pair r h')
    from assms(1) have e1: "extends h h'"
      using Pair by (auto simp: frames_def dest: spec [of _ h])
    show ?thesis
    proof (cases r)
      case (Inl e)
      with Pair e1 show ?thesis by (simp add: bind_st_def)
    next
      case (Inr x)
      from assms(2) [of x] have "extends h' (snd (g x h'))"
        by (simp add: frames_def)
      with e1 Pair Inr show ?thesis
        by (simp add: bind_st_def extends_trans)
    qed
  qed
  then show ?thesis
    by (simp add: frames_def)
qed

lemma fresh_alloc: "fresh (alloc c s d)"
  by (simp add: fresh_def alloc_def extends_def)

lemma fresh_frames: "fresh f \<Longrightarrow> frames f"
  by (simp add: fresh_def frames_def)

lemma fresh_raise: "fresh (raise_st e)"
  by (simp add: fresh_def raise_st_def extends_refl)

lemma fresh_bind:
  assumes "frames f" and "\<And>x. fresh (g x)"
  shows "fresh (bind_st f g)"
proof -
  have "extends h (snd (bind_st f g h))
        \<and> (case fst (bind_st f g h) of Inl e \<Rightarrow> True
            | Inr r \<Rightarrow> next_free h \<le> addr r \<and> addr r < next_free (snd (bind_st f g h)))" for h
  proof (cases "f h")
    case (Pair r h')
    from assms(1) have e1: "extends h h'"
      using Pair by (auto simp: frames_def dest: spec [of _ h])
    show ?thesis
    proof (cases r)
      case (Inl e)
      with Pair e1 show ?thesis by (simp add: bind_st_def)
    next
      case (Inr x)
      from assms(2) [of x] have g: "extends h' (snd (g x h'))"
        "case fst (g x h') of Inl e \<Rightarrow> True
         | Inr r \<Rightarrow> next_free h' \<le> addr r \<and> addr r < next_free (snd (g x h'))"
        by (simp_all add: fresh_def)
      from e1 have "next_free h \<le> next_free h'"
        by (simp add: extends_def)
      with g e1 Pair Inr show ?thesis
        by (auto simp: bind_st_def extends_trans split: sum.splits)
    qed
  qed
  then show ?thesis
    by (simp add: fresh_def)
qed

lemma fresh_new: "fresh (new_mat d m)" "fresh (new_vec d v)"
  by (simp_all add: new_mat_def new_vec_def fresh_alloc)

lemma fresh_ops:
  "fresh (st_mean1 a)" "fresh (st_std1 a)" "fresh (st_col_op f a c)" "fresh (st_matmul a b)"
  "fresh (st_mul a b)" "fresh (st_add a b)" "fresh (st_eye n)" "fresh (st_cuda a)"
  "fresh (st_pow_half a)" "fresh (st_diag a)" "fresh (st_inverse a)"
  unfolding st_mean1_def st_std1_def st_col_op_def st_matmul_def st_mul_def st_add_def st_eye_def
    st_cuda_def st_pow_half_def st_diag_def st_inverse_def
  by (auto intro!: fresh_bind fresh_new fresh_raise frames_get_mat frames_get_vec split: sum.splits)

lemma frames_views: "frames (st_view3 x)" "frames (st_t m)" "frames (st_view_as m x)"
  unfolding st_view3_def st_t_def st_view_as_def Let_def
  by (auto intro!: frames_bind frames_get_vec frames_return frames_raise)

lemma frames_svd: "frames (st_svd svd x)"
  unfolding st_svd_def
  by (auto intro!: frames_bind frames_get_mat frames_return frames_raise fresh_frames fresh_new
      split: option.splits)

lemma fresh_matSqrt: "fresh (matSqrt_st svd x)"
  unfolding matSqrt_st_def
  by (auto intro!: fresh_bind frames_svd fresh_frames fresh_ops frames_views)

lemma fresh_eye_on: "fresh (st_eye_on cud)"
  unfolding st_eye_on_def
  by (auto intro!: fresh_bind fresh_frames fresh_ops)

lemma fresh_view_as:
  assumes "fresh f"
  shows "fresh (bind_st f (\<lambda>t. st_view_as t x))"
proof -
  have "extends h (snd (bind_st f (\<lambda>t. st_view_as t x) h))
        \<and> (case fst (bind_st f (\<lambda>t. st_view_as t x) h) of Inl e \<Rightarrow> True
            | Inr r \<Rightarrow> next_free h \<le> addr r \<and> addr r < next_free (snd (bind_st f (\<lambda>t. st_view_as t x) h)))"
    for h
  proof (cases "f h")
    case (Pair r h')
    from assms have "extends h (snd (f h))
        \<and> (case fst (f h) of Inl e \<Rightarrow> True
            | Inr t \<Rightarrow> next_free h \<le> addr t \<and> addr t < next_free (snd (f h)))"
      unfolding fresh_def by (rule spec)
    then have f: "extends h h'"
      "case r of Inl e \<Rightarrow> True | Inr t \<Rightarrow> next_free h \<le> addr t \<and> addr t < next_free h'"
      by (auto simp: Pair split: sum.splits)
    show ?thesis
    proof (cases r)
      case (Inl e)
      with Pair f show ?thesis by (simp add: bind_st_def)
    next
      case (Inr t)
      have "snd (st_view_as t x h') = h'"
        by (auto simp: st_view_as_def bind_st_def get_vec_def return_st_def raise_st_def
            split: option.splits cell.splits)
      moreover have "case fst (st_view_as t x h') of Inl e \<Rightarrow> True | Inr r \<Rightarrow> addr r = addr t"
        by (auto simp: st_view_as_def bind_st_def get_vec_def return_st_def raise_st_def
            split: option.splits cell.splits)
      ultimately show ?thesis
        using Pair Inr f by (auto simp: bind_st_def split: sum.splits)
    qed
  qed
  then show ?thesis
    by (simp add: fresh_def)
qed

lemma fresh_color_match_st: "fresh (color_match_st svd cuda_available src dst use_cuda)"
  unfolding color_match_st_def Let_def
  by (intro fresh_view_as fresh_bind fresh_ops frames_views fresh_frames fresh_matSqrt fresh_eye_on)


lemma stored_bind:
  assumes "\<And>x. stored (g x)"
  shows "stored (bind_st f g)"
proof -
  have "case bind_st f g h of (Inl e, h') \<Rightarrow> True | (Inr r, h') \<Rightarrow> cells h' (addr r) \<noteq> None" for h
  proof (cases "f h")
    case (Pair r h1)
    show ?thesis
    proof (cases r)
      case (Inl e)
      with Pair show ?thesis by (simp add: bind_st_def)
    next
      case (Inr x)
      from assms [of x] have "case g x h1 of (Inl e, h') \<Rightarrow> True | (Inr r, h') \<Rightarrow> cells h' (addr r) \<noteq> None"
        unfolding stored_def by (rule spec)
      with Pair Inr show ?thesis by (simp add: bind_st_def)
    qed
  qed
  then show ?thesis
    by (simp add: stored_def)
qed

lemma stored_view_as: "stored (st_view_as m x)"
  by (auto simp: stored_def st_view_as_def bind_st_def get_vec_def return_st_def raise_st_def
      split: option.splits cell.splits)

lemma stored_color_match_st: "stored (color_match_st svd cuda_available src dst use_cuda)"
  unfolding color_match_st_def Let_def
  by (intro stored_bind stored_view_as)
text \<open>
  Claim C8. Run \<^verbatim>\<open>color_match\<close> on any two tensors \<open>src\<close> and \<open>dst\<close> held in a well-formed
  store, with any decomposition routine, any flags, and whether it returns or raises.
  Afterwards every cell the store held is unchanged, so \<open>src\<close> and \<open>dst\<close> stand for
  exactly the tensors they stood for before the call. When the call returns, the storage
  of its result did not exist before the call and exists after it, and it is the storage of
  neither input: the \<^verbatim>\<open>view\<close> of the inputs are only read, and the final \<^verbatim>\<open>view_as\<close>
  is a view of the last arithmetic result, not of \<open>src\<close>.
\<close>

theorem color_match_no_mutation:
  assumes run: "color_match_st svd cuda_available src dst use_cuda h = (res, h')"
    and wf: "wf_heap h"
    and s: "addr src < next_free h" and d: "addr dst < next_free h"
  shows "deref h' src = deref h src \<and> deref h' dst = deref h dst
       \<and> (\<forall>a. cells h a \<noteq> None \<longrightarrow> cells h' a = cells h a)
       \<and> (\<forall>r. res = Inr r \<longrightarrow> cells h (addr r) = None \<and> cells h' (addr r) \<noteq> None
                \<and> addr r \<noteq> addr src \<and> addr r \<noteq> addr dst)"
proof -
  have "extends h (snd (color_match_st svd cuda_available src dst use_cuda h))
        \<and> (case fst (color_match_st svd cuda_available src dst use_cuda h) of Inl e \<Rightarrow> True
            | Inr r \<Rightarrow> next_free h \<le> addr r
                \<and> addr r < next_free (snd (color_match_st svd cuda_available src dst use_cuda h)))"
    using fresh_color_match_st [of svd cuda_available src dst use_cuda]
    unfolding fresh_def by (rule spec)
  then have ext: "extends h h'"
    and new: "case res of Inl e \<Rightarrow> True | Inr r \<Rightarrow> next_free h \<le> addr r \<and> addr r < next_free h'"
    by (auto simp: run split: sum.splits)
  from ext have same: "cells h' a = cells h a" if "a < next_free h" for a
    using that by (simp add: extends_def)
  have old: "a < next_free h" if "cells h a \<noteq> None" for a
    using that wf by (auto simp: wf_heap_def not_le [symmetric])
  have "case color_match_st svd cuda_available src dst use_cuda h of
          (Inl e, h') \<Rightarrow> True | (Inr r, h') \<Rightarrow> cells h' (addr r) \<noteq> None"
    using stored_color_match_st [of svd cuda_available src dst use_cuda]
    unfolding stored_def by (rule spec)
  then have held: "case res of Inl e \<Rightarrow> True | Inr r \<Rightarrow> cells h' (addr r) \<noteq> None"
    by (auto simp: run split: sum.splits)
  have "deref h' src = deref h src" "deref h' dst = deref h dst"
    by (simp_all add: deref_def same [OF s] same [OF d])
  moreover have "\<forall>a. cells h a \<noteq> None \<longrightarrow> cells h' a = cells h a"
    using same old by blast
  moreover have "cells h (addr r) = None \<and> cells h' (addr r) \<noteq> None
                \<and> addr r \<noteq> addr src \<and> addr r \<noteq> addr dst" if "res = Inr r" for r
    using that new held wf s d by (auto simp: wf_heap_def)
  ultimately show ?thesis
    by blast
qed

theorem color_match_no_mutation_witness:
  "deref (snd (color_match_st svd_table False refA refB False heapAB)) refA = Some imgA
   \<and> deref (snd (color_match_st svd_table False refA refB False heapAB)) refB = Some imgB"
  using color_match_no_mutation [of svd_table False refA refB False heapAB
      "fst (color_match_st svd_table False refA refB False heapAB)"
      "snd (color_match_st svd_table False refA refB False heapAB)"]
  by (simp add: wf_heap_def heapAB_def refA_def refB_def deref_def imgA_def imgB_def)
end
